theory Spec2Isabelle
  imports Main "HOL-Library.AList"
begin

section \<open>Common modelling conventions\<close>

text \<open>
  The program is a FastAPI application whose state lives in module-level dictionaries.
  A Python \<^verbatim>\<open>dict\<close> keeps its keys in insertion order, and \<^verbatim>\<open>values()\<close> is read in
  that order by the search and list endpoints, so a dictionary is an association list:
  \<^verbatim>\<open>k in d\<close> and \<^verbatim>\<open>d.get(k)\<close> are \<^const>\<open>map_of\<close>, and \<^verbatim>\<open>d[k] = v\<close> is
  \<^const>\<open>AList.update\<close> (replace in place when the key is there, append otherwise).
  Objects held in a dictionary are mutated in place by the source; the model writes the
  changed object back under the key it was read from.

  A raised \<^verbatim>\<open>HTTPException(status_code=..., detail=...)\<close> is a value; every endpoint
  returns its outcome together with the dictionary as it is after the call, so that what
  a failing call leaves behind is part of the model.
\<close>

datatype HTTPException = HTTPException (status_code: nat) (detail: string)

type_synonym ('k, 'v) dict = "('k \<times> 'v) list"

definition dict_contains :: "'k \<Rightarrow> ('k, 'v) dict \<Rightarrow> bool" where
  "dict_contains k d \<longleftrightarrow> map_of d k \<noteq> None"

definition dict_get :: "('k, 'v) dict \<Rightarrow> 'k \<Rightarrow> 'v option" where
  "dict_get d k = map_of d k"

definition dict_set :: "'k \<Rightarrow> 'v \<Rightarrow> ('k, 'v) dict \<Rightarrow> ('k, 'v) dict" where
  "dict_set k v d = AList.update k v d"

definition dict_values :: "('k, 'v) dict \<Rightarrow> 'v list" where
  "dict_values d = map snd d"

text \<open>
  \<^verbatim>\<open>datetime\<close> values are opaque to the program: it only stores them and compares them
  with \<^verbatim>\<open>!=\<close>. A \<^verbatim>\<open>datetime\<close> object is always truthy.
\<close>

datatype datetime = Datetime (timestamp: int)

text \<open>
  Truthiness of an \<^verbatim>\<open>Optional[str]\<close>, as tested by \<^verbatim>\<open>if data.destination:\<close>:
  \<^verbatim>\<open>None\<close> and the empty string are both falsy.
\<close>

fun truthy_str :: "string option \<Rightarrow> bool" where
  "truthy_str None = False"
| "truthy_str (Some s) = (s \<noteq> [])"

section \<open>Flights: \<^verbatim>\<open>src/flights/schemas.py\<close> and \<^verbatim>\<open>src/flights/router.py\<close>\<close>

record FlightBase =
  flight_id :: string
  destination :: string
  departure :: string
  flight_type :: string
  aircraft :: string
  seats :: int
  flight_datetime :: datetime
  state :: "string option"

text \<open>\<^verbatim>\<open>class FlightCreate(FlightBase): pass\<close>\<close>

type_synonym FlightCreate = FlightBase

record FlightUpdate =
  flight_id :: string
  destination :: "string option"
  departure :: "string option"
  flight_type :: "string option"
  aircraft :: "string option"
  seats :: "int option"
  flight_datetime :: "datetime option"

record Flight =
  flight_id :: string
  destination :: string
  departure :: string
  flight_type :: string
  aircraft :: string
  seats :: int
  flight_datetime :: datetime
  state :: string

type_synonym flights_db = "(string, Flight) dict"

definition Flight_init ::
  "string \<Rightarrow> string \<Rightarrow> string \<Rightarrow> string \<Rightarrow> string \<Rightarrow> int \<Rightarrow> datetime \<Rightarrow> Flight" where
  "Flight_init fid dest dep ftype acft nseats dt =
     \<lparr>Flight.flight_id = fid, Flight.destination = dest, Flight.departure = dep,
      Flight.flight_type = ftype, Flight.aircraft = acft, Flight.seats = nseats,
      Flight.flight_datetime = dt, Flight.state = ''reserved''\<rparr>"

text \<open>
  \<^verbatim>\<open>to_dict\<close> builds a dictionary with the eight keys of the response model
  \<^verbatim>\<open>FlightBase\<close>; the result is modelled as that record.
\<close>

definition to_dict :: "Flight \<Rightarrow> FlightBase" where
  "to_dict self =
     \<lparr>FlightBase.flight_id = Flight.flight_id self,
      FlightBase.destination = Flight.destination self,
      FlightBase.departure = Flight.departure self,
      FlightBase.flight_type = Flight.flight_type self,
      FlightBase.aircraft = Flight.aircraft self,
      FlightBase.seats = Flight.seats self,
      FlightBase.flight_datetime = Flight.flight_datetime self,
      FlightBase.state = Some (Flight.state self)\<rparr>"

text \<open>
  \<^verbatim>\<open>Flight.update\<close>: six guarded assignments in sequence. The four string fields are
  guarded by truthiness, \<^verbatim>\<open>seats\<close> and \<^verbatim>\<open>flight_datetime\<close> by \<^verbatim>\<open>is not None\<close>.
\<close>

definition Flight_update :: "Flight \<Rightarrow> FlightUpdate \<Rightarrow> Flight" where
  "Flight_update self data =
     (let s1 = (case FlightUpdate.destination data of
                  Some v \<Rightarrow> if truthy_str (Some v) then self\<lparr>Flight.destination := v\<rparr> else self
                | None \<Rightarrow> self);
          s2 = (case FlightUpdate.departure data of
                  Some v \<Rightarrow> if truthy_str (Some v) then s1\<lparr>Flight.departure := v\<rparr> else s1
                | None \<Rightarrow> s1);
          s3 = (case FlightUpdate.flight_type data of
                  Some v \<Rightarrow> if truthy_str (Some v) then s2\<lparr>Flight.flight_type := v\<rparr> else s2
                | None \<Rightarrow> s2);
          s4 = (case FlightUpdate.aircraft data of
                  Some v \<Rightarrow> if truthy_str (Some v) then s3\<lparr>Flight.aircraft := v\<rparr> else s3
                | None \<Rightarrow> s3);
          s5 = (case FlightUpdate.seats data of
                  Some n \<Rightarrow> s4\<lparr>Flight.seats := n\<rparr>
                | None \<Rightarrow> s4);
          s6 = (case FlightUpdate.flight_datetime data of
                  Some t \<Rightarrow> s5\<lparr>Flight.flight_datetime := t\<rparr>
                | None \<Rightarrow> s5)
      in s6)"

text \<open>\<^verbatim>\<open>Flight.confirm\<close> and \<^verbatim>\<open>Flight.cancel\<close> return their message and the object.\<close>

definition Flight_confirm :: "Flight \<Rightarrow> string \<times> Flight" where
  "Flight_confirm self = (''Vuelo confirmado.'', self\<lparr>Flight.state := ''confirmed''\<rparr>)"

definition Flight_cancel :: "Flight \<Rightarrow> string \<times> Flight" where
  "Flight_cancel self =
     (if Flight.state self = ''confirmed'' then (''Cannot cancel a confirmed flight.'', self)
      else (''Vuelo cancelado.'', self\<lparr>Flight.state := ''cancelled''\<rparr>))"

definition FlightFactory_create_flight :: "FlightCreate \<Rightarrow> Flight" where
  "FlightFactory_create_flight flight_data =
     Flight_init (FlightBase.flight_id flight_data) (FlightBase.destination flight_data)
       (FlightBase.departure flight_data) (FlightBase.flight_type flight_data)
       (FlightBase.aircraft flight_data) (FlightBase.seats flight_data)
       (FlightBase.flight_datetime flight_data)"

subsection \<open>Endpoint bodies\<close>

text \<open>
  A \<^verbatim>\<open>Flight\<close> object defines neither \<^verbatim>\<open>__bool__\<close> nor \<^verbatim>\<open>__len__\<close>, so
  \<^verbatim>\<open>if not flight:\<close> after \<^verbatim>\<open>flights_db.get(...)\<close> is the test for \<^verbatim>\<open>None\<close>.
\<close>

definition create_flight ::
  "FlightCreate \<Rightarrow> flights_db \<Rightarrow> (HTTPException + string) \<times> flights_db" where
  "create_flight request db =
     (if dict_contains (FlightBase.flight_id request) db
      then (Inl (HTTPException 400
                   (''Vuelo con Id '' @ FlightBase.flight_id request @ '' ya existe.'')), db)
      else let flight = FlightFactory_create_flight request
           in (Inr (''Vuelo '' @ FlightBase.flight_id request @ '' creado exitosamente.''),
               dict_set (FlightBase.flight_id request) flight db))"

definition confirm_flight ::
  "string \<Rightarrow> flights_db \<Rightarrow> (HTTPException + string) \<times> flights_db" where
  "confirm_flight fid db =
     (case dict_get db fid of
        None \<Rightarrow> (Inl (HTTPException 404 ''Vuelo no encontrado.''), db)
      | Some flight \<Rightarrow>
          (let (msg, flight') = Flight_confirm flight
           in (Inr msg, dict_set fid flight' db)))"

definition cancel_flight ::
  "string \<Rightarrow> flights_db \<Rightarrow> (HTTPException + string) \<times> flights_db" where
  "cancel_flight fid db =
     (case dict_get db fid of
        None \<Rightarrow> (Inl (HTTPException 404 ''Vuelo no encontrado.''), db)
      | Some flight \<Rightarrow>
          (let (msg, flight') = Flight_cancel flight
           in (Inr msg, dict_set fid flight' db)))"

text \<open>
  \<^verbatim>\<open>search_flights\<close>: the loop over \<^verbatim>\<open>flights_db.values()\<close>. Each \<^verbatim>\<open>continue\<close> is a
  branch that goes on with the rest and the results unchanged. The string filters are
  tested by truthiness (\<^verbatim>\<open>if destination and ...\<close>), \<^verbatim>\<open>seats\<close> by \<^verbatim>\<open>is not None\<close>, and
  \<^verbatim>\<open>flight_datetime\<close> by truthiness of a \<^verbatim>\<open>datetime\<close>, which holds whenever it is
  not \<^verbatim>\<open>None\<close>.
\<close>

fun search_loop ::
  "string option \<Rightarrow> string option \<Rightarrow> string option \<Rightarrow> string option \<Rightarrow> string option \<Rightarrow>
   int option \<Rightarrow> datetime option \<Rightarrow> Flight list \<Rightarrow> FlightBase list \<Rightarrow> FlightBase list" where
  "search_loop flight_id' destination' departure' flight_type' aircraft' seats' flight_datetime'
     [] results = results"
| "search_loop flight_id' destination' departure' flight_type' aircraft' seats' flight_datetime'
     (flight # rest) results =
     (if truthy_str flight_id' \<and> Some (Flight.flight_id flight) \<noteq> flight_id' then
        search_loop flight_id' destination' departure' flight_type' aircraft' seats'
          flight_datetime' rest results
      else if truthy_str destination' \<and> Some (Flight.destination flight) \<noteq> destination' then
        search_loop flight_id' destination' departure' flight_type' aircraft' seats'
          flight_datetime' rest results
      else if truthy_str departure' \<and> Some (Flight.departure flight) \<noteq> departure' then
        search_loop flight_id' destination' departure' flight_type' aircraft' seats'
          flight_datetime' rest results
      else if truthy_str flight_type' \<and> Some (Flight.flight_type flight) \<noteq> flight_type' then
        search_loop flight_id' destination' departure' flight_type' aircraft' seats'
          flight_datetime' rest results
      else if truthy_str aircraft' \<and> Some (Flight.aircraft flight) \<noteq> aircraft' then
        search_loop flight_id' destination' departure' flight_type' aircraft' seats'
          flight_datetime' rest results
      else if seats' \<noteq> None \<and> Some (Flight.seats flight) \<noteq> seats' then
        search_loop flight_id' destination' departure' flight_type' aircraft' seats'
          flight_datetime' rest results
      else if flight_datetime' \<noteq> None \<and> Some (Flight.flight_datetime flight) \<noteq> flight_datetime' then
        search_loop flight_id' destination' departure' flight_type' aircraft' seats'
          flight_datetime' rest results
      else
        search_loop flight_id' destination' departure' flight_type' aircraft' seats'
          flight_datetime' rest (results @ [to_dict flight]))"

definition search_flights ::
  "string option \<Rightarrow> string option \<Rightarrow> string option \<Rightarrow> string option \<Rightarrow> string option \<Rightarrow>
   int option \<Rightarrow> datetime option \<Rightarrow> flights_db \<Rightarrow> (HTTPException + FlightBase list) \<times> flights_db" where
  "search_flights flight_id' destination' departure' flight_type' aircraft' seats' flight_datetime' db =
     (let results = search_loop flight_id' destination' departure' flight_type' aircraft' seats'
                      flight_datetime' (dict_values db) []
      in if results = [] then (Inl (HTTPException 404 ''Vuelo no encontrado.''), db)
         else (Inr results, db))"

definition update_flight ::
  "FlightUpdate \<Rightarrow> flights_db \<Rightarrow> (HTTPException + string) \<times> flights_db" where
  "update_flight request db =
     (case dict_get db (FlightUpdate.flight_id request) of
        None \<Rightarrow> (Inl (HTTPException 404 ''Vuelo no encontrado.''), db)
      | Some flight \<Rightarrow>
          (Inr (''Vuelo '' @ FlightUpdate.flight_id request @ '' actualizado exitosamente.''),
           dict_set (FlightUpdate.flight_id request) (Flight_update flight request) db))"

definition list_flights :: "flights_db \<Rightarrow> (HTTPException + FlightBase list) \<times> flights_db" where
  "list_flights db = (Inr (map to_dict (dict_values db)), db)"

section \<open>Authentication and the admin gate: \<^verbatim>\<open>src/auth.py\<close>\<close>

text \<open>
  A user is one of the dictionaries stored in \<^verbatim>\<open>fake_users_db\<close>, with the keys
  \<^verbatim>\<open>username\<close>, \<^verbatim>\<open>hashed_password\<close> and \<^verbatim>\<open>is_admin\<close>. The bcrypt hash computed at import
  time is salted, so it is a parameter of the table.
\<close>

record User =
  username :: string
  hashed_password :: string
  is_admin :: bool

definition fake_users_db :: "string \<Rightarrow> (string, User) dict" where
  "fake_users_db admin_hash =
     [(''admin@example.com'',
       \<lparr>username = ''admin@example.com'', hashed_password = admin_hash, is_admin = True\<rparr>)]"

text \<open>
  \<^verbatim>\<open>jwt.decode\<close> belongs to the python-jose library. It either returns the claims of the
  token or raises \<^verbatim>\<open>JWTError\<close> or one of its subclasses \<^verbatim>\<open>ExpiredSignatureError\<close> and
  \<^verbatim>\<open>JWTClaimsError\<close>; a malformed token and a failed signature check raise \<^verbatim>\<open>JWTError\<close>
  itself. The library checks that a \<^verbatim>\<open>sub\<close> claim, when present, is a string. The
  decoder, with the signing key, the algorithm and the clock that it reads, is a
  parameter of \<^verbatim>\<open>get_current_user\<close>.
\<close>

datatype JWTError = JWTError | ExpiredSignatureError | JWTClaimsError

record Payload =
  sub :: "string option"
  exp :: "int option"

text \<open>
  \<^verbatim>\<open>except JWTError\<close> catches the class and its subclasses. The \<^verbatim>\<open>HTTPException\<close> raised
  inside the \<^verbatim>\<open>try\<close> block is not a \<^verbatim>\<open>JWTError\<close> and leaves the function as it is.
\<close>

definition get_current_user ::
  "(string \<Rightarrow> JWTError + Payload) \<Rightarrow> (string, User) dict \<Rightarrow> string \<Rightarrow> HTTPException + User" where
  "get_current_user decode users token =
     (case decode token of
        Inl e \<Rightarrow> Inl (HTTPException 401 ''Invalid authentication credentials'')
      | Inr payload \<Rightarrow>
          (case sub payload of
             None \<Rightarrow> Inl (HTTPException 401 ''Invalid authentication credentials'')
           | Some username' \<Rightarrow>
               if \<not> dict_contains username' users
               then Inl (HTTPException 401 ''Invalid authentication credentials'')
               else (case dict_get users username' of
                       Some user \<Rightarrow> Inr user
                     | None \<Rightarrow> Inl (HTTPException 500 ''KeyError''))))"

text \<open>
  The last branch is the \<^verbatim>\<open>KeyError\<close> of \<^verbatim>\<open>fake_users_db[username]\<close>, which the membership
  test before it excludes.
\<close>

definition admin_required :: "User \<Rightarrow> HTTPException + User" where
  "admin_required user =
     (if \<not> is_admin user
      then Inl (HTTPException 403 (''The user doesn'' @ [CHR 0x27] @ ''t have enough privileges''))
      else Inr user)"

text \<open>
  \<^verbatim>\<open>Depends(admin_required)\<close> first resolves \<^verbatim>\<open>Depends(get_current_user)\<close>; an exception
  raised by a dependency is the response and the endpoint body does not run.
\<close>

definition admin_required_dep ::
  "(string \<Rightarrow> JWTError + Payload) \<Rightarrow> (string, User) dict \<Rightarrow> string \<Rightarrow> HTTPException + User" where
  "admin_required_dep decode users token =
     (case get_current_user decode users token of
        Inl e \<Rightarrow> Inl e
      | Inr user \<Rightarrow> admin_required user)"

definition admin_only ::
  "(string \<Rightarrow> JWTError + Payload) \<Rightarrow> (string, User) dict \<Rightarrow> string \<Rightarrow>
   (flights_db \<Rightarrow> (HTTPException + 'a) \<times> flights_db) \<Rightarrow> flights_db \<Rightarrow>
   (HTTPException + 'a) \<times> flights_db" where
  "admin_only decode users token endpoint db =
     (case admin_required_dep decode users token of
        Inl e \<Rightarrow> (Inl e, db)
      | Inr user \<Rightarrow> endpoint db)"

text \<open>The six routes of the flights router, each declared with \<^verbatim>\<open>dependencies=[Depends(admin_required)]\<close>.\<close>

definition post_flights_create where
  "post_flights_create decode users token request =
     admin_only decode users token (create_flight request)"

definition get_flights_search where
  "get_flights_search decode users token flight_id' destination' departure' flight_type'
     aircraft' seats' flight_datetime' =
     admin_only decode users token
       (search_flights flight_id' destination' departure' flight_type' aircraft' seats'
          flight_datetime')"

definition put_flights_update where
  "put_flights_update decode users token request =
     admin_only decode users token (update_flight request)"

definition get_flights_get_all where
  "get_flights_get_all decode users token = admin_only decode users token list_flights"

definition post_flights_confirm where
  "post_flights_confirm decode users token fid =
     admin_only decode users token (confirm_flight fid)"

definition post_flights_cancel where
  "post_flights_cancel decode users token fid =
     admin_only decode users token (cancel_flight fid)"

section \<open>Reservations: \<^verbatim>\<open>src/bookings/router.py\<close>\<close>

text \<open>
  The pydantic model \<^verbatim>\<open>Reservation\<close>. The field \<^verbatim>\<open>id\<close> is written \<open>id'\<close>. The
  address syntax of \<^verbatim>\<open>passenger_email\<close> is checked by the schema layer before the
  object exists. \<^verbatim>\<open>status\<close> is declared \<^verbatim>\<open>str\<close> with the default \<^verbatim>\<open>"reserved"\<close>, and
  \<^verbatim>\<open>seat_number\<close> is optional with the default \<^verbatim>\<open>None\<close>: \<open>Reservation_init\<close> builds
  the object from a request body in which both may be left out.
\<close>

record Reservation =
  id' :: int
  passenger_email :: string
  flight_id :: string
  seat_number :: "string option"
  status :: string

definition Reservation_init ::
  "int \<Rightarrow> string \<Rightarrow> string \<Rightarrow> string option \<Rightarrow> string option \<Rightarrow> Reservation" where
  "Reservation_init rid email fid seat status' =
     \<lparr>id' = rid, passenger_email = email, Reservation.flight_id = fid, seat_number = seat,
      status = (case status' of None \<Rightarrow> ''reserved'' | Some s \<Rightarrow> s)\<rparr>"

text \<open>The state of a \<^verbatim>\<open>ReservationRepository\<close> is its attribute \<^verbatim>\<open>reservations\<close>.\<close>

type_synonym ReservationRepository = "(int, Reservation) dict"

definition ReservationRepository_init :: ReservationRepository where
  "ReservationRepository_init = []"

definition ReservationRepository_add_reservation ::
  "Reservation \<Rightarrow> ReservationRepository \<Rightarrow> (HTTPException + unit) \<times> ReservationRepository" where
  "ReservationRepository_add_reservation reservation repo =
     (if dict_contains (id' reservation) repo
      then (Inl (HTTPException 400 (''Reservaci'' @ [CHR 0xF3] @ ''n ya existente.'')), repo)
      else (Inr (), dict_set (id' reservation) reservation repo))"

definition ReservationRepository_get_reservation ::
  "int \<Rightarrow> ReservationRepository \<Rightarrow> Reservation option" where
  "ReservationRepository_get_reservation reservation_id repo = dict_get repo reservation_id"

definition ReservationRepository_update_reservation ::
  "Reservation \<Rightarrow> ReservationRepository \<Rightarrow> (HTTPException + unit) \<times> ReservationRepository" where
  "ReservationRepository_update_reservation reservation repo =
     (if \<not> dict_contains (id' reservation) repo
      then (Inl (HTTPException 404 (''Reservaci'' @ [CHR 0xF3] @ ''n no encontrada.'')), repo)
      else (Inr (), dict_set (id' reservation) reservation repo))"

definition ReservationRepository_list_all :: "ReservationRepository \<Rightarrow> Reservation list" where
  "ReservationRepository_list_all repo = dict_values repo"

definition BookingManager_create_reservation ::
  "Reservation \<Rightarrow> ReservationRepository \<Rightarrow> (HTTPException + unit) \<times> ReservationRepository" where
  "BookingManager_create_reservation reservation repo =
     ReservationRepository_add_reservation reservation repo"

definition BookingManager_update_reservation ::
  "Reservation \<Rightarrow> ReservationRepository \<Rightarrow> (HTTPException + unit) \<times> ReservationRepository" where
  "BookingManager_update_reservation reservation repo =
     ReservationRepository_update_reservation reservation repo"

text \<open>
  \<^verbatim>\<open>cancel_reservation\<close> assigns \<^verbatim>\<open>status\<close> on the object that the repository holds under
  \<^verbatim>\<open>reservation_id\<close>, so the repository shows the new status before
  \<^verbatim>\<open>update_reservation\<close> runs (\<open>repo'\<close> below), also when that call raises. A pydantic
  model is truthy, so \<^verbatim>\<open>if reservation:\<close> is the test for \<^verbatim>\<open>None\<close>.
\<close>

definition BookingManager_cancel_reservation ::
  "int \<Rightarrow> ReservationRepository \<Rightarrow> (HTTPException + unit) \<times> ReservationRepository" where
  "BookingManager_cancel_reservation reservation_id repo =
     (case ReservationRepository_get_reservation reservation_id repo of
        Some reservation \<Rightarrow>
          (let reservation' = reservation\<lparr>status := ''cancelled''\<rparr>;
               repo' = dict_set reservation_id reservation' repo
           in ReservationRepository_update_reservation reservation' repo')
      | None \<Rightarrow>
          (Inl (HTTPException 404 (''Reservaci'' @ [CHR 0xF3] @ ''n no encontrada.'')), repo))"

definition BookingManager_list_all_reservations :: "ReservationRepository \<Rightarrow> Reservation list" where
  "BookingManager_list_all_reservations repo = ReservationRepository_list_all repo"

text \<open>The three routes of the bookings router; none of them has a dependency.\<close>

definition create_reservation ::
  "Reservation \<Rightarrow> ReservationRepository \<Rightarrow> (HTTPException + Reservation) \<times> ReservationRepository" where
  "create_reservation reservation repo =
     (case BookingManager_create_reservation reservation repo of
        (Inl e, repo') \<Rightarrow> (Inl e, repo')
      | (Inr u, repo') \<Rightarrow> (Inr reservation, repo'))"

definition cancel_reservation ::
  "int \<Rightarrow> ReservationRepository \<Rightarrow> (HTTPException + string) \<times> ReservationRepository" where
  "cancel_reservation reservation_id repo =
     (case BookingManager_cancel_reservation reservation_id repo of
        (Inl e, repo') \<Rightarrow> (Inl e, repo')
      | (Inr u, repo') \<Rightarrow> (Inr (''Reservaci'' @ [CHR 0xF3] @ ''n cancelada.''), repo'))"

definition list_reservations ::
  "ReservationRepository \<Rightarrow> (HTTPException + Reservation list) \<times> ReservationRepository" where
  "list_reservations repo = (Inr (BookingManager_list_all_reservations repo), repo)"

subsection \<open>Reachable repositories\<close>

text \<open>
  The repository starts empty and changes only through the three mutating methods of the
  \<^verbatim>\<open>BookingManager\<close> facade. A call sequence is run from the left; a call that raises
  leaves the repository as that call left it and the next call goes on from there.
\<close>

datatype booking_call = Create Reservation | Update Reservation | Cancel int

fun booking_step :: "booking_call \<Rightarrow> ReservationRepository \<Rightarrow> ReservationRepository" where
  "booking_step (Create r) repo = snd (BookingManager_create_reservation r repo)"
| "booking_step (Update r) repo = snd (BookingManager_update_reservation r repo)"
| "booking_step (Cancel rid) repo = snd (BookingManager_cancel_reservation rid repo)"

fun booking_run :: "booking_call list \<Rightarrow> ReservationRepository \<Rightarrow> ReservationRepository" where
  "booking_run [] repo = repo"
| "booking_run (c # cs) repo = booking_run cs (booking_step c repo)"

text \<open>The statuses that the callers of a sequence supplied in their requests.\<close>

fun supplied_statuses :: "booking_call list \<Rightarrow> string list" where
  "supplied_statuses [] = []"
| "supplied_statuses (Create r # cs) = status r # supplied_statuses cs"
| "supplied_statuses (Update r # cs) = status r # supplied_statuses cs"
| "supplied_statuses (Cancel rid # cs) = supplied_statuses cs"

text \<open>
  The shape that every reachable repository has: the keys of a dictionary are distinct,
  and each reservation is stored under its own \<^verbatim>\<open>id\<close>.
\<close>

definition keyed_by_id :: "ReservationRepository \<Rightarrow> bool" where
  "keyed_by_id repo \<longleftrightarrow> distinct (map fst repo) \<and> list_all (\<lambda>(k, r). id' r = k) repo"

section \<open>The specification's reading of update and search\<close>

text \<open>
  The specification words the partial update as: a field is overwritten exactly when its
  value in the payload is not null. \<open>update_nonnull_spec\<close> is that reading, to be compared
  with \<open>Flight_update\<close>.
\<close>

definition update_nonnull_spec :: "Flight \<Rightarrow> FlightUpdate \<Rightarrow> Flight" where
  "update_nonnull_spec self data =
     self\<lparr>Flight.destination := (case FlightUpdate.destination data of
                                    None \<Rightarrow> Flight.destination self | Some v \<Rightarrow> v),
          Flight.departure := (case FlightUpdate.departure data of
                                  None \<Rightarrow> Flight.departure self | Some v \<Rightarrow> v),
          Flight.flight_type := (case FlightUpdate.flight_type data of
                                    None \<Rightarrow> Flight.flight_type self | Some v \<Rightarrow> v),
          Flight.aircraft := (case FlightUpdate.aircraft data of
                                 None \<Rightarrow> Flight.aircraft self | Some v \<Rightarrow> v),
          Flight.seats := (case FlightUpdate.seats data of
                              None \<Rightarrow> Flight.seats self | Some v \<Rightarrow> v),
          Flight.flight_datetime := (case FlightUpdate.flight_datetime data of
                                        None \<Rightarrow> Flight.flight_datetime self | Some v \<Rightarrow> v)\<rparr>"

text \<open>
  The specification words the search as: a flight is returned exactly when it equals every
  supplied filter; a filter that was left out is not tested. \<open>matches_supplied_spec\<close> is
  that reading, to be compared with \<open>search_flights\<close>.
\<close>

fun supplied_equal :: "'a option \<Rightarrow> 'a \<Rightarrow> bool" where
  "supplied_equal None x = True"
| "supplied_equal (Some v) x = (x = v)"

definition matches_supplied_spec ::
  "string option \<Rightarrow> string option \<Rightarrow> string option \<Rightarrow> string option \<Rightarrow> string option \<Rightarrow>
   int option \<Rightarrow> datetime option \<Rightarrow> Flight \<Rightarrow> bool" where
  "matches_supplied_spec flight_id' destination' departure' flight_type' aircraft' seats'
     flight_datetime' flight \<longleftrightarrow>
     supplied_equal flight_id' (Flight.flight_id flight) \<and>
     supplied_equal destination' (Flight.destination flight) \<and>
     supplied_equal departure' (Flight.departure flight) \<and>
     supplied_equal flight_type' (Flight.flight_type flight) \<and>
     supplied_equal aircraft' (Flight.aircraft flight) \<and>
     supplied_equal seats' (Flight.seats flight) \<and>
     supplied_equal flight_datetime' (Flight.flight_datetime flight)"

section \<open>Sample data\<close>

definition flight_F1 :: Flight where
  "flight_F1 = Flight_init ''F1'' ''Lima'' ''Bogota'' ''commercial'' ''A320'' 180 (Datetime 1700000000)"

definition flight_F2 :: Flight where
  "flight_F2 = (Flight_init ''F2'' ''Quito'' ''Bogota'' ''charter'' ''B737'' 0 (Datetime 1700003600))
                 \<lparr>Flight.state := ''confirmed''\<rparr>"

definition sample_flights :: flights_db where
  "sample_flights = [(''F1'', flight_F1), (''F2'', flight_F2)]"

definition reservation_42 :: Reservation where
  "reservation_42 = Reservation_init 42 ''a@b.com'' ''F1'' None None"

definition reservation_7 :: Reservation where
  "reservation_7 = Reservation_init 7 ''c@d.org'' ''F2'' (Some ''12A'') (Some ''pending'')"

definition blank_destination_update :: FlightUpdate where
  "blank_destination_update =
     \<lparr>FlightUpdate.flight_id = ''F1'', FlightUpdate.destination = Some '''',
      FlightUpdate.departure = None, FlightUpdate.flight_type = None,
      FlightUpdate.aircraft = Some ''A321'', FlightUpdate.seats = Some 0,
      FlightUpdate.flight_datetime = None\<rparr>"

text \<open>
  A table of users with one administrator and one ordinary user, and a decoder that knows
  six kinds of token.
\<close>

definition sample_users :: "(string, User) dict" where
  "sample_users =
     fake_users_db ''bcrypt-hash-of-admin'' @
     [(''user@example.com'',
       \<lparr>username = ''user@example.com'', hashed_password = ''bcrypt-hash-of-user'',
        is_admin = False\<rparr>)]"

definition sample_decode :: "string \<Rightarrow> JWTError + Payload" where
  "sample_decode token =
     (if token = ''admin-token'' then Inr \<lparr>sub = Some ''admin@example.com'', exp = Some 1700001800\<rparr>
      else if token = ''user-token'' then Inr \<lparr>sub = Some ''user@example.com'', exp = Some 1700001800\<rparr>
      else if token = ''ghost-token'' then Inr \<lparr>sub = Some ''ghost@example.com'', exp = Some 1700001800\<rparr>
      else if token = ''anonymous-token'' then Inr \<lparr>sub = None, exp = Some 1700001800\<rparr>
      else if token = ''expired-token'' then Inl ExpiredSignatureError
      else Inl JWTError)"

section \<open>Properties of the dictionary model\<close>

lemma dict_set_get_same: "dict_get (dict_set k v d) k = Some v"
  by (simp add: dict_get_def dict_set_def update_conv')

lemma dict_set_get_other: "k' \<noteq> k \<Longrightarrow> dict_get (dict_set k v d) k' = dict_get d k'"
  by (simp add: dict_get_def dict_set_def update_conv')

lemma dict_set_keys_present:
  "dict_get d k = Some w \<Longrightarrow> map fst (dict_set k v d) = map fst d"
  by (induction d) (auto simp: dict_get_def dict_set_def)

lemma dict_set_same_value: "dict_get d k = Some v \<Longrightarrow> dict_set k v d = d"
  by (induction d) (auto simp: dict_get_def dict_set_def)

lemma dict_set_absent: "dict_get d k = None \<Longrightarrow> dict_set k v d = d @ [(k, v)]"
  by (induction d) (auto simp: dict_get_def dict_set_def)

lemma dict_set_twice: "dict_set k v (dict_set k w d) = dict_set k v d"
  by (induction d) (auto simp: dict_set_def)

lemma sample_get_F1: "dict_get sample_flights ''F1'' = Some flight_F1"
  by (simp add: dict_get_def sample_flights_def)

lemma sample_get_F2: "dict_get sample_flights ''F2'' = Some flight_F2"
  by (simp add: dict_get_def sample_flights_def)

lemma sample_get_F3: "dict_get sample_flights ''F3'' = None"
  by (simp add: dict_get_def sample_flights_def)

section \<open>Flight lifecycle\<close>

text \<open>
  Claim C1. Cancelling a stored flight whose state is \<^verbatim>\<open>confirmed\<close> is not an error: the
  endpoint returns the message \<^verbatim>\<open>Cannot cancel a confirmed flight.\<close> and the repository
  is exactly as before, so the state is still \<^verbatim>\<open>confirmed\<close>. Cancelling a stored flight
  in any other state returns \<^verbatim>\<open>Vuelo cancelado.\<close>, the flight's state becomes
  \<^verbatim>\<open>cancelled\<close>, nothing else of it changes and no other key is touched. Cancelling an
  absent id raises the 404 exception and leaves the repository as it was.
\<close>

theorem cancel_flight_cases:
  "(dict_get db fid = None \<longrightarrow>
      cancel_flight fid db = (Inl (HTTPException 404 ''Vuelo no encontrado.''), db)) \<and>
   (\<forall>f. dict_get db fid = Some f \<and> Flight.state f = ''confirmed'' \<longrightarrow>
      cancel_flight fid db = (Inr ''Cannot cancel a confirmed flight.'', db) \<and>
      map_option Flight.state (dict_get (snd (cancel_flight fid db)) fid) = Some ''confirmed'') \<and>
   (\<forall>f. dict_get db fid = Some f \<and> Flight.state f \<noteq> ''confirmed'' \<longrightarrow>
      fst (cancel_flight fid db) = Inr ''Vuelo cancelado.'' \<and>
      dict_get (snd (cancel_flight fid db)) fid = Some (f\<lparr>Flight.state := ''cancelled''\<rparr>) \<and>
      map fst (snd (cancel_flight fid db)) = map fst db \<and>
      (\<forall>k. k \<noteq> fid \<longrightarrow> dict_get (snd (cancel_flight fid db)) k = dict_get db k))"
  by (auto simp: cancel_flight_def Flight_cancel_def dict_set_get_same dict_set_get_other
        dict_set_same_value dict_set_keys_present)

theorem cancel_flight_cases_witness:
  "dict_get sample_flights ''F3'' = None \<and>
   cancel_flight ''F3'' sample_flights = (Inl (HTTPException 404 ''Vuelo no encontrado.''), sample_flights) \<and>
   dict_get sample_flights ''F2'' = Some flight_F2 \<and> Flight.state flight_F2 = ''confirmed'' \<and>
   cancel_flight ''F2'' sample_flights = (Inr ''Cannot cancel a confirmed flight.'', sample_flights) \<and>
   dict_get sample_flights ''F1'' = Some flight_F1 \<and> Flight.state flight_F1 \<noteq> ''confirmed'' \<and>
   dict_get (snd (cancel_flight ''F1'' sample_flights)) ''F1'' =
     Some (flight_F1\<lparr>Flight.state := ''cancelled''\<rparr>)"
proof -
  have s1: "Flight.state flight_F1 \<noteq> ''confirmed''"
    by (simp add: flight_F1_def Flight_init_def)
  have s2: "Flight.state flight_F2 = ''confirmed''"
    by (simp add: flight_F2_def)
  show ?thesis
    using cancel_flight_cases [of sample_flights "''F3''"]
      cancel_flight_cases [of sample_flights "''F2''"]
      cancel_flight_cases [of sample_flights "''F1''"]
      sample_get_F1 sample_get_F2 sample_get_F3 s1 s2
    by simp
qed

lemma create_flight_new:
  assumes "dict_get db (FlightBase.flight_id request) = None"
  shows "create_flight request db =
        (Inr (''Vuelo '' @ FlightBase.flight_id request @ '' creado exitosamente.''),
         db @ [(FlightBase.flight_id request, FlightFactory_create_flight request)])"
  using assms dict_set_absent [OF assms]
  by (simp add: create_flight_def dict_contains_def dict_get_def)

lemma create_flight_new_db:
  assumes "dict_get db (FlightBase.flight_id request) = None"
  shows "snd (create_flight request db) =
           dict_set (FlightBase.flight_id request) (FlightFactory_create_flight request) db"
  using assms by (simp add: create_flight_def dict_contains_def dict_get_def)

text \<open>
  Claim C6. Creating a flight whose \<^verbatim>\<open>flight_id\<close> is already a key raises the 400
  exception and leaves the repository, and so the existing record, exactly as it was.
  Otherwise the call succeeds and appends one record under that key: it carries the seven
  fields of the request, its state is \<^verbatim>\<open>reserved\<close> whatever state the request carried, and
  no other key is touched. There is no third outcome.
\<close>

theorem create_flight_cases:
  "(dict_get db (FlightBase.flight_id request) \<noteq> None \<longrightarrow>
      create_flight request db =
        (Inl (HTTPException 400 (''Vuelo con Id '' @ FlightBase.flight_id request @ '' ya existe.'')), db)) \<and>
   (dict_get db (FlightBase.flight_id request) = None \<longrightarrow>
      create_flight request db =
        (Inr (''Vuelo '' @ FlightBase.flight_id request @ '' creado exitosamente.''),
         db @ [(FlightBase.flight_id request,
                \<lparr>Flight.flight_id = FlightBase.flight_id request,
                 Flight.destination = FlightBase.destination request,
                 Flight.departure = FlightBase.departure request,
                 Flight.flight_type = FlightBase.flight_type request,
                 Flight.aircraft = FlightBase.aircraft request,
                 Flight.seats = FlightBase.seats request,
                 Flight.flight_datetime = FlightBase.flight_datetime request,
                 Flight.state = ''reserved''\<rparr>)]) \<and>
      map_option Flight.state (dict_get (snd (create_flight request db)) (FlightBase.flight_id request))
        = Some ''reserved'' \<and>
      (\<forall>k. k \<noteq> FlightBase.flight_id request \<longrightarrow>
         dict_get (snd (create_flight request db)) k = dict_get db k))"
proof (intro conjI impI allI)
  assume "dict_get db (FlightBase.flight_id request) \<noteq> None"
  then show "create_flight request db =
        (Inl (HTTPException 400 (''Vuelo con Id '' @ FlightBase.flight_id request @ '' ya existe.'')), db)"
    by (simp add: create_flight_def dict_contains_def dict_get_def)
next
  assume absent: "dict_get db (FlightBase.flight_id request) = None"
  show "create_flight request db =
        (Inr (''Vuelo '' @ FlightBase.flight_id request @ '' creado exitosamente.''),
         db @ [(FlightBase.flight_id request,
                \<lparr>Flight.flight_id = FlightBase.flight_id request,
                 Flight.destination = FlightBase.destination request,
                 Flight.departure = FlightBase.departure request,
                 Flight.flight_type = FlightBase.flight_type request,
                 Flight.aircraft = FlightBase.aircraft request,
                 Flight.seats = FlightBase.seats request,
                 Flight.flight_datetime = FlightBase.flight_datetime request,
                 Flight.state = ''reserved''\<rparr>)])"
    using create_flight_new [OF absent]
    by (simp add: FlightFactory_create_flight_def Flight_init_def)
  show "map_option Flight.state
          (dict_get (snd (create_flight request db)) (FlightBase.flight_id request)) = Some ''reserved''"
    by (simp add: create_flight_new_db [OF absent] dict_set_get_same
          FlightFactory_create_flight_def Flight_init_def)
next
  fix k
  assume absent: "dict_get db (FlightBase.flight_id request) = None"
    and "k \<noteq> FlightBase.flight_id request"
  then show "dict_get (snd (create_flight request db)) k = dict_get db k"
    by (simp add: create_flight_new_db [OF absent] dict_set_get_other)
qed

theorem create_flight_cases_witness:
  "dict_get sample_flights ''F1'' \<noteq> None \<and>
   create_flight (to_dict flight_F1) sample_flights =
     (Inl (HTTPException 400 ''Vuelo con Id F1 ya existe.''), sample_flights) \<and>
   dict_get [] ''F2'' = (None :: Flight option) \<and>
   create_flight (to_dict flight_F2) [] =
     (Inr ''Vuelo F2 creado exitosamente.'', [(''F2'', flight_F2\<lparr>Flight.state := ''reserved''\<rparr>)])"
proof -
  have a: "FlightBase.flight_id (to_dict flight_F1) = ''F1''"
    by (simp add: to_dict_def flight_F1_def Flight_init_def)
  have b: "FlightBase.flight_id (to_dict flight_F2) = ''F2''"
    by (simp add: to_dict_def flight_F2_def Flight_init_def)
  have c: "dict_get [] ''F2'' = (None :: Flight option)"
    by (simp add: dict_get_def)
  show ?thesis
    using create_flight_cases [of sample_flights "to_dict flight_F1"]
      create_flight_cases [of "[]" "to_dict flight_F2"] sample_get_F1 c
    by (simp add: a b) (simp add: to_dict_def flight_F2_def Flight_init_def)
qed

lemma confirm_flight_present:
  "dict_get db fid = Some f \<Longrightarrow>
     confirm_flight fid db = (Inr ''Vuelo confirmado.'', dict_set fid (f\<lparr>Flight.state := ''confirmed''\<rparr>) db)"
  by (simp add: confirm_flight_def Flight_confirm_def)

text \<open>
  Claim C7. Confirming an absent id raises the 404 exception and leaves the repository as
  it was. Confirming a stored flight returns \<^verbatim>\<open>Vuelo confirmado.\<close> and sets its state to
  \<^verbatim>\<open>confirmed\<close> whatever the state was before, \<^verbatim>\<open>cancelled\<close> included; nothing else of the
  flight changes, no other key is touched, and confirming a second time gives the same
  outcome and the same repository as the first time.
\<close>

theorem confirm_flight_cases:
  "(dict_get db fid = None \<longrightarrow>
      confirm_flight fid db = (Inl (HTTPException 404 ''Vuelo no encontrado.''), db)) \<and>
   (\<forall>f. dict_get db fid = Some f \<longrightarrow>
      fst (confirm_flight fid db) = Inr ''Vuelo confirmado.'' \<and>
      dict_get (snd (confirm_flight fid db)) fid = Some (f\<lparr>Flight.state := ''confirmed''\<rparr>) \<and>
      map fst (snd (confirm_flight fid db)) = map fst db \<and>
      (\<forall>k. k \<noteq> fid \<longrightarrow> dict_get (snd (confirm_flight fid db)) k = dict_get db k) \<and>
      confirm_flight fid (snd (confirm_flight fid db)) = confirm_flight fid db)"
proof (intro conjI impI allI)
  assume "dict_get db fid = None"
  then show "confirm_flight fid db = (Inl (HTTPException 404 ''Vuelo no encontrado.''), db)"
    by (simp add: confirm_flight_def)
next
  fix f assume f: "dict_get db fid = Some f"
  note c = confirm_flight_present [OF f]
  show "fst (confirm_flight fid db) = Inr ''Vuelo confirmado.''"
    by (simp add: c)
  show "dict_get (snd (confirm_flight fid db)) fid = Some (f\<lparr>Flight.state := ''confirmed''\<rparr>)"
    by (simp add: c dict_set_get_same)
  show "map fst (snd (confirm_flight fid db)) = map fst db"
    by (simp add: c dict_set_keys_present [OF f])
  have "dict_get (dict_set fid (f\<lparr>Flight.state := ''confirmed''\<rparr>) db) fid
          = Some (f\<lparr>Flight.state := ''confirmed''\<rparr>)"
    by (rule dict_set_get_same)
  from confirm_flight_present [OF this]
  show "confirm_flight fid (snd (confirm_flight fid db)) = confirm_flight fid db"
    by (simp add: c dict_set_twice)
next
  fix f k assume f: "dict_get db fid = Some f" and "k \<noteq> fid"
  then show "dict_get (snd (confirm_flight fid db)) k = dict_get db k"
    by (simp add: confirm_flight_present [OF f] dict_set_get_other)
qed

theorem confirm_flight_cases_witness:
  "dict_get sample_flights ''F3'' = None \<and>
   confirm_flight ''F3'' sample_flights = (Inl (HTTPException 404 ''Vuelo no encontrado.''), sample_flights) \<and>
   dict_get sample_flights ''F1'' = Some flight_F1 \<and>
   dict_get (snd (confirm_flight ''F1'' sample_flights)) ''F1'' =
     Some (flight_F1\<lparr>Flight.state := ''confirmed''\<rparr>) \<and>
   dict_get [(''F9'', flight_F1\<lparr>Flight.state := ''cancelled''\<rparr>)] ''F9'' =
     Some (flight_F1\<lparr>Flight.state := ''cancelled''\<rparr>) \<and>
   dict_get (snd (confirm_flight ''F9'' [(''F9'', flight_F1\<lparr>Flight.state := ''cancelled''\<rparr>)])) ''F9'' =
     Some (flight_F1\<lparr>Flight.state := ''confirmed''\<rparr>)"
proof -
  have c: "dict_get [(''F9'', flight_F1\<lparr>Flight.state := ''cancelled''\<rparr>)] ''F9'' =
     Some (flight_F1\<lparr>Flight.state := ''cancelled''\<rparr>)"
    by (simp add: dict_get_def)
  show ?thesis
    using confirm_flight_cases [of sample_flights "''F3''"]
      confirm_flight_cases [of sample_flights "''F1''"]
      confirm_flight_cases [of "[(''F9'', flight_F1\<lparr>Flight.state := ''cancelled''\<rparr>)]" "''F9''"]
      sample_get_F1 sample_get_F3 c
    by simp
qed

section \<open>Partial update of a flight\<close>

lemma Flight_update_fields:
  "Flight.flight_id (Flight_update f d) = Flight.flight_id f"
  "Flight.state (Flight_update f d) = Flight.state f"
  "Flight.destination (Flight_update f d) =
     (case FlightUpdate.destination d of
        None \<Rightarrow> Flight.destination f | Some v \<Rightarrow> if v = [] then Flight.destination f else v)"
  "Flight.departure (Flight_update f d) =
     (case FlightUpdate.departure d of
        None \<Rightarrow> Flight.departure f | Some v \<Rightarrow> if v = [] then Flight.departure f else v)"
  "Flight.flight_type (Flight_update f d) =
     (case FlightUpdate.flight_type d of
        None \<Rightarrow> Flight.flight_type f | Some v \<Rightarrow> if v = [] then Flight.flight_type f else v)"
  "Flight.aircraft (Flight_update f d) =
     (case FlightUpdate.aircraft d of
        None \<Rightarrow> Flight.aircraft f | Some v \<Rightarrow> if v = [] then Flight.aircraft f else v)"
  "Flight.seats (Flight_update f d) =
     (case FlightUpdate.seats d of None \<Rightarrow> Flight.seats f | Some n \<Rightarrow> n)"
  "Flight.flight_datetime (Flight_update f d) =
     (case FlightUpdate.flight_datetime d of None \<Rightarrow> Flight.flight_datetime f | Some t \<Rightarrow> t)"
  by (simp_all add: Flight_update_def Let_def split: option.split)

lemma update_flight_present:
  "dict_get db (FlightUpdate.flight_id request) = Some f \<Longrightarrow>
     update_flight request db =
       (Inr (''Vuelo '' @ FlightUpdate.flight_id request @ '' actualizado exitosamente.''),
        dict_set (FlightUpdate.flight_id request) (Flight_update f request) db)"
  by (simp add: update_flight_def)

lemma update_flight_absent:
  "dict_get db (FlightUpdate.flight_id request) = None \<Longrightarrow>
     update_flight request db = (Inl (HTTPException 404 ''Vuelo no encontrado.''), db)"
  by (simp add: update_flight_def)

text \<open>
  Claim C2, as the specification states it, fails on a payload that carries an empty
  string: the value is not null, yet the stored destination stays \<^verbatim>\<open>Lima\<close>, and the
  result differs from the one the specification's reading gives.
\<close>

theorem update_flight_blank_counterexample:
  "dict_get sample_flights (FlightUpdate.flight_id blank_destination_update) = Some flight_F1 \<and>
   FlightUpdate.destination blank_destination_update = Some '''' \<and>
   Flight.destination flight_F1 = ''Lima'' \<and>
   fst (update_flight blank_destination_update sample_flights) = Inr ''Vuelo F1 actualizado exitosamente.'' \<and>
   map_option Flight.destination
     (dict_get (snd (update_flight blank_destination_update sample_flights)) ''F1'') = Some ''Lima'' \<and>
   Flight_update flight_F1 blank_destination_update \<noteq>
     update_nonnull_spec flight_F1 blank_destination_update"
proof -
  have g: "dict_get sample_flights (FlightUpdate.flight_id blank_destination_update) = Some flight_F1"
    by (simp add: blank_destination_update_def sample_get_F1)
  have d: "Flight.destination flight_F1 = ''Lima''"
    by (simp add: flight_F1_def Flight_init_def)
  have u: "Flight.destination (Flight_update flight_F1 blank_destination_update) = ''Lima''"
    by (simp add: Flight_update_fields d blank_destination_update_def)
  have s: "Flight.destination (update_nonnull_spec flight_F1 blank_destination_update) = ''''"
    by (simp add: update_nonnull_spec_def blank_destination_update_def)
  have ne: "Flight_update flight_F1 blank_destination_update \<noteq>
     update_nonnull_spec flight_F1 blank_destination_update"
    using u s by auto
  have i: "FlightUpdate.flight_id blank_destination_update = ''F1''"
    by (simp add: blank_destination_update_def)
  show ?thesis
    using g d ne u update_flight_present [OF g]
    by (simp add: i dict_set_get_same) (simp add: blank_destination_update_def)
qed

text \<open>
  Claim C2, amended. Updating an absent id raises the 404 exception and leaves the
  repository as it was. Updating a stored flight succeeds, and each of the six fields is
  decided by its own payload value alone: \<^verbatim>\<open>destination\<close>, \<^verbatim>\<open>departure\<close>, \<^verbatim>\<open>flight_type\<close>
  and \<^verbatim>\<open>aircraft\<close> are overwritten when the payload value is neither null nor the empty
  string, \<^verbatim>\<open>seats\<close> and \<^verbatim>\<open>flight_datetime\<close> when it is not null, and a field that is not
  overwritten keeps its value. No other key is touched.
\<close>

theorem update_flight_cases:
  "(dict_get db (FlightUpdate.flight_id request) = None \<longrightarrow>
      update_flight request db = (Inl (HTTPException 404 ''Vuelo no encontrado.''), db)) \<and>
   (\<forall>f. dict_get db (FlightUpdate.flight_id request) = Some f \<longrightarrow>
      fst (update_flight request db) =
        Inr (''Vuelo '' @ FlightUpdate.flight_id request @ '' actualizado exitosamente.'') \<and>
      map_option Flight.destination
          (dict_get (snd (update_flight request db)) (FlightUpdate.flight_id request)) =
        Some (case FlightUpdate.destination request of
                None \<Rightarrow> Flight.destination f
              | Some v \<Rightarrow> if v = [] then Flight.destination f else v) \<and>
      map_option Flight.departure
          (dict_get (snd (update_flight request db)) (FlightUpdate.flight_id request)) =
        Some (case FlightUpdate.departure request of
                None \<Rightarrow> Flight.departure f
              | Some v \<Rightarrow> if v = [] then Flight.departure f else v) \<and>
      map_option Flight.flight_type
          (dict_get (snd (update_flight request db)) (FlightUpdate.flight_id request)) =
        Some (case FlightUpdate.flight_type request of
                None \<Rightarrow> Flight.flight_type f
              | Some v \<Rightarrow> if v = [] then Flight.flight_type f else v) \<and>
      map_option Flight.aircraft
          (dict_get (snd (update_flight request db)) (FlightUpdate.flight_id request)) =
        Some (case FlightUpdate.aircraft request of
                None \<Rightarrow> Flight.aircraft f
              | Some v \<Rightarrow> if v = [] then Flight.aircraft f else v) \<and>
      map_option Flight.seats
          (dict_get (snd (update_flight request db)) (FlightUpdate.flight_id request)) =
        Some (case FlightUpdate.seats request of None \<Rightarrow> Flight.seats f | Some n \<Rightarrow> n) \<and>
      map_option Flight.flight_datetime
          (dict_get (snd (update_flight request db)) (FlightUpdate.flight_id request)) =
        Some (case FlightUpdate.flight_datetime request of
                None \<Rightarrow> Flight.flight_datetime f | Some t \<Rightarrow> t) \<and>
      (\<forall>k. k \<noteq> FlightUpdate.flight_id request \<longrightarrow>
         dict_get (snd (update_flight request db)) k = dict_get db k))"
proof (intro conjI impI allI)
  assume "dict_get db (FlightUpdate.flight_id request) = None"
  then show "update_flight request db = (Inl (HTTPException 404 ''Vuelo no encontrado.''), db)"
    by (rule update_flight_absent)
next
  fix f assume f: "dict_get db (FlightUpdate.flight_id request) = Some f"
  note u = update_flight_present [OF f]
  show "fst (update_flight request db) =
        Inr (''Vuelo '' @ FlightUpdate.flight_id request @ '' actualizado exitosamente.'')"
    by (simp add: u)
  show "map_option Flight.destination
          (dict_get (snd (update_flight request db)) (FlightUpdate.flight_id request)) =
        Some (case FlightUpdate.destination request of
                None \<Rightarrow> Flight.destination f
              | Some v \<Rightarrow> if v = [] then Flight.destination f else v)"
    by (simp add: u dict_set_get_same Flight_update_fields)
  show "map_option Flight.departure
          (dict_get (snd (update_flight request db)) (FlightUpdate.flight_id request)) =
        Some (case FlightUpdate.departure request of
                None \<Rightarrow> Flight.departure f
              | Some v \<Rightarrow> if v = [] then Flight.departure f else v)"
    by (simp add: u dict_set_get_same Flight_update_fields)
  show "map_option Flight.flight_type
          (dict_get (snd (update_flight request db)) (FlightUpdate.flight_id request)) =
        Some (case FlightUpdate.flight_type request of
                None \<Rightarrow> Flight.flight_type f
              | Some v \<Rightarrow> if v = [] then Flight.flight_type f else v)"
    by (simp add: u dict_set_get_same Flight_update_fields)
  show "map_option Flight.aircraft
          (dict_get (snd (update_flight request db)) (FlightUpdate.flight_id request)) =
        Some (case FlightUpdate.aircraft request of
                None \<Rightarrow> Flight.aircraft f
              | Some v \<Rightarrow> if v = [] then Flight.aircraft f else v)"
    by (simp add: u dict_set_get_same Flight_update_fields)
  show "map_option Flight.seats
          (dict_get (snd (update_flight request db)) (FlightUpdate.flight_id request)) =
        Some (case FlightUpdate.seats request of None \<Rightarrow> Flight.seats f | Some n \<Rightarrow> n)"
    by (simp add: u dict_set_get_same Flight_update_fields)
  show "map_option Flight.flight_datetime
          (dict_get (snd (update_flight request db)) (FlightUpdate.flight_id request)) =
        Some (case FlightUpdate.flight_datetime request of
                None \<Rightarrow> Flight.flight_datetime f | Some t \<Rightarrow> t)"
    by (simp add: u dict_set_get_same Flight_update_fields)
next
  fix f k assume f: "dict_get db (FlightUpdate.flight_id request) = Some f"
    and "k \<noteq> FlightUpdate.flight_id request"
  then show "dict_get (snd (update_flight request db)) k = dict_get db k"
    by (simp add: update_flight_present [OF f] dict_set_get_other)
qed

theorem update_flight_cases_witness:
  "dict_get sample_flights ''F3'' = None \<and>
   update_flight (blank_destination_update\<lparr>FlightUpdate.flight_id := ''F3''\<rparr>) sample_flights =
     (Inl (HTTPException 404 ''Vuelo no encontrado.''), sample_flights) \<and>
   dict_get sample_flights ''F1'' = Some flight_F1 \<and>
   fst (update_flight blank_destination_update sample_flights) =
     Inr ''Vuelo F1 actualizado exitosamente.'' \<and>
   map_option Flight.destination
     (dict_get (snd (update_flight blank_destination_update sample_flights)) ''F1'') = Some ''Lima'' \<and>
   map_option Flight.departure
     (dict_get (snd (update_flight blank_destination_update sample_flights)) ''F1'') = Some ''Bogota'' \<and>
   map_option Flight.aircraft
     (dict_get (snd (update_flight blank_destination_update sample_flights)) ''F1'') = Some ''A321'' \<and>
   map_option Flight.seats
     (dict_get (snd (update_flight blank_destination_update sample_flights)) ''F1'') = Some 0 \<and>
   dict_get (snd (update_flight blank_destination_update sample_flights)) ''F2'' = Some flight_F2"
proof -
  have i: "FlightUpdate.flight_id blank_destination_update = ''F1''"
    by (simp add: blank_destination_update_def)
  have j: "FlightUpdate.flight_id (blank_destination_update\<lparr>FlightUpdate.flight_id := ''F3''\<rparr>) = ''F3''"
    by simp
  have n: "''F2'' \<noteq> ''F1''" by simp
  have a: "update_flight (blank_destination_update\<lparr>FlightUpdate.flight_id := ''F3''\<rparr>) sample_flights =
     (Inl (HTTPException 404 ''Vuelo no encontrado.''), sample_flights)"
    using update_flight_cases [of sample_flights "blank_destination_update\<lparr>FlightUpdate.flight_id := ''F3''\<rparr>"]
      sample_get_F3 unfolding j by blast
  have b: "fst (update_flight blank_destination_update sample_flights) =
     Inr ''Vuelo F1 actualizado exitosamente.'' \<and>
   map_option Flight.destination
     (dict_get (snd (update_flight blank_destination_update sample_flights)) ''F1'') = Some ''Lima'' \<and>
   map_option Flight.departure
     (dict_get (snd (update_flight blank_destination_update sample_flights)) ''F1'') = Some ''Bogota'' \<and>
   map_option Flight.aircraft
     (dict_get (snd (update_flight blank_destination_update sample_flights)) ''F1'') = Some ''A321'' \<and>
   map_option Flight.seats
     (dict_get (snd (update_flight blank_destination_update sample_flights)) ''F1'') = Some 0 \<and>
   dict_get (snd (update_flight blank_destination_update sample_flights)) ''F2'' = Some flight_F2"
    using update_flight_cases [of sample_flights blank_destination_update] sample_get_F1 sample_get_F2 n
    unfolding i
    by (simp add: blank_destination_update_def flight_F1_def Flight_init_def)
  show ?thesis using a b sample_get_F1 sample_get_F3 by simp
qed

lemma update_same_projection:
  "map_of db k = Some f \<Longrightarrow> p g = p f \<Longrightarrow>
     map (\<lambda>(j, x). (j, p x)) (AList.update k g db) = map (\<lambda>(j, x). (j, p x)) db"
  by (induction db) (auto split: if_splits)

text \<open>
  Claim C10. An update never changes the key, the \<^verbatim>\<open>flight_id\<close> or the \<^verbatim>\<open>state\<close> of any
  stored flight, whatever the payload and whether or not the call succeeds: the list of
  (key, \<^verbatim>\<open>flight_id\<close>, \<^verbatim>\<open>state\<close>) triples of the repository is the same before and after,
  and so is what a lookup of any key gives for these two fields.
\<close>

theorem update_flight_frame:
  "map (\<lambda>(k, f). (k, Flight.flight_id f, Flight.state f)) (snd (update_flight request db)) =
     map (\<lambda>(k, f). (k, Flight.flight_id f, Flight.state f)) db \<and>
   map_option Flight.flight_id (dict_get (snd (update_flight request db)) k) =
     map_option Flight.flight_id (dict_get db k) \<and>
   map_option Flight.state (dict_get (snd (update_flight request db)) k) =
     map_option Flight.state (dict_get db k)"
proof (cases "dict_get db (FlightUpdate.flight_id request)")
  case None
  then show ?thesis by (simp add: update_flight_absent)
next
  case (Some f)
  have "map (\<lambda>(k, f). (k, Flight.flight_id f, Flight.state f))
          (AList.update (FlightUpdate.flight_id request) (Flight_update f request) db) =
        map (\<lambda>(k, f). (k, Flight.flight_id f, Flight.state f)) db"
    using Some
    by (intro update_same_projection [where p = "\<lambda>f. (Flight.flight_id f, Flight.state f)"])
       (simp_all add: dict_get_def Flight_update_fields)
  moreover have "map_option Flight.flight_id (dict_get (snd (update_flight request db)) k) =
     map_option Flight.flight_id (dict_get db k)"
    using Some
    by (cases "k = FlightUpdate.flight_id request")
       (simp_all add: update_flight_present [OF Some] dict_set_get_same dict_set_get_other
          Flight_update_fields)
  moreover have "map_option Flight.state (dict_get (snd (update_flight request db)) k) =
     map_option Flight.state (dict_get db k)"
    using Some
    by (cases "k = FlightUpdate.flight_id request")
       (simp_all add: update_flight_present [OF Some] dict_set_get_same dict_set_get_other
          Flight_update_fields)
  ultimately show ?thesis
    by (simp add: update_flight_present [OF Some] dict_set_def)
qed

section \<open>Search\<close>

text \<open>
  The loop keeps, in repository order, the flights on which none of the seven tests
  sends it to \<^verbatim>\<open>continue\<close>.
\<close>

lemma str_filter_skips:
  "(truthy_str q \<and> Some x \<noteq> q) = (\<not> (case q of None \<Rightarrow> True | Some v \<Rightarrow> v = [] \<or> x = v))"
  by (cases q) auto

lemma value_filter_skips:
  "(q \<noteq> None \<and> Some x \<noteq> q) = (\<not> (case q of None \<Rightarrow> True | Some v \<Rightarrow> x = v))"
  by (cases q) auto

lemma search_loop_filter:
  "search_loop a b c d e n t xs acc =
     acc @ map to_dict (filter (\<lambda>f.
       (case a of None \<Rightarrow> True | Some v \<Rightarrow> v = [] \<or> Flight.flight_id f = v) \<and>
       (case b of None \<Rightarrow> True | Some v \<Rightarrow> v = [] \<or> Flight.destination f = v) \<and>
       (case c of None \<Rightarrow> True | Some v \<Rightarrow> v = [] \<or> Flight.departure f = v) \<and>
       (case d of None \<Rightarrow> True | Some v \<Rightarrow> v = [] \<or> Flight.flight_type f = v) \<and>
       (case e of None \<Rightarrow> True | Some v \<Rightarrow> v = [] \<or> Flight.aircraft f = v) \<and>
       (case n of None \<Rightarrow> True | Some v \<Rightarrow> Flight.seats f = v) \<and>
       (case t of None \<Rightarrow> True | Some v \<Rightarrow> Flight.flight_datetime f = v)) xs)"
proof (induction xs arbitrary: acc)
  case Nil
  show ?case by simp
next
  case (Cons x xs)
  show ?case
    unfolding search_loop.simps str_filter_skips value_filter_skips Cons.IH
    by simp
qed

text \<open>
  Claim C3, as the specification states it, fails when a string filter is supplied as the
  empty string (\<^verbatim>\<open>GET /flights/search?destination=\<close>): no stored flight has an empty
  destination, so the subset matching every supplied filter is empty and the claim asks
  for the 404 exception, yet the search returns both stored flights.
\<close>

theorem search_flights_blank_counterexample:
  "search_flights None (Some '''') None None None None None sample_flights =
     (Inr [to_dict flight_F1, to_dict flight_F2], sample_flights) \<and>
   filter (matches_supplied_spec None (Some '''') None None None None None)
     (dict_values sample_flights) = []"
  by (simp add: search_flights_def sample_flights_def dict_values_def matches_supplied_spec_def
        flight_F1_def flight_F2_def Flight_init_def)

text \<open>
  Claim C3, amended. A filter is tested when it is supplied and, for the five string
  filters, is not the empty string; \<^verbatim>\<open>seats\<close> and \<^verbatim>\<open>flight_datetime\<close> are tested whenever
  they are supplied. The search returns, in repository order, exactly the flights that
  equal every tested filter, raises the 404 exception when there is none, and never
  changes the repository.
\<close>

theorem search_flights_result:
  "search_flights a b c d e n t db =
     (let hits = filter (\<lambda>f.
        (case a of None \<Rightarrow> True | Some v \<Rightarrow> v = [] \<or> Flight.flight_id f = v) \<and>
        (case b of None \<Rightarrow> True | Some v \<Rightarrow> v = [] \<or> Flight.destination f = v) \<and>
        (case c of None \<Rightarrow> True | Some v \<Rightarrow> v = [] \<or> Flight.departure f = v) \<and>
        (case d of None \<Rightarrow> True | Some v \<Rightarrow> v = [] \<or> Flight.flight_type f = v) \<and>
        (case e of None \<Rightarrow> True | Some v \<Rightarrow> v = [] \<or> Flight.aircraft f = v) \<and>
        (case n of None \<Rightarrow> True | Some v \<Rightarrow> Flight.seats f = v) \<and>
        (case t of None \<Rightarrow> True | Some v \<Rightarrow> Flight.flight_datetime f = v)) (dict_values db)
      in if hits = [] then (Inl (HTTPException 404 ''Vuelo no encontrado.''), db)
         else (Inr (map to_dict hits), db))"
  unfolding search_flights_def search_loop_filter
  by (simp add: Let_def)

theorem search_flights_result_witness:
  "search_flights None (Some ''Quito'') None None None (Some 0) None sample_flights =
     (Inr [to_dict flight_F2], sample_flights) \<and>
   search_flights (Some ''F1'') (Some ''Quito'') None None None None None sample_flights =
     (Inl (HTTPException 404 ''Vuelo no encontrado.''), sample_flights)"
  using search_flights_result [of None "Some ''Quito''" None None None "Some 0" None sample_flights]
    search_flights_result [of "Some ''F1''" "Some ''Quito''" None None None None None sample_flights]
  by (simp add: sample_flights_def dict_values_def flight_F1_def flight_F2_def Flight_init_def)

section \<open>Authentication and authorisation\<close>

lemma dict_contains_get: "dict_contains k d \<longleftrightarrow> dict_get d k \<noteq> None"
  by (simp add: dict_contains_def dict_get_def)

lemma sample_users_get:
  "dict_get sample_users ''admin@example.com'' =
     Some \<lparr>username = ''admin@example.com'', hashed_password = ''bcrypt-hash-of-admin'', is_admin = True\<rparr>"
  "dict_get sample_users ''user@example.com'' =
     Some \<lparr>username = ''user@example.com'', hashed_password = ''bcrypt-hash-of-user'', is_admin = False\<rparr>"
  "dict_get sample_users ''ghost@example.com'' = None"
  by (simp_all add: sample_users_def fake_users_db_def dict_get_def)

lemma sample_decode_values:
  "sample_decode ''admin-token'' = Inr \<lparr>sub = Some ''admin@example.com'', exp = Some 1700001800\<rparr>"
  "sample_decode ''user-token'' = Inr \<lparr>sub = Some ''user@example.com'', exp = Some 1700001800\<rparr>"
  "sample_decode ''ghost-token'' = Inr \<lparr>sub = Some ''ghost@example.com'', exp = Some 1700001800\<rparr>"
  "sample_decode ''anonymous-token'' = Inr \<lparr>sub = None, exp = Some 1700001800\<rparr>"
  "sample_decode ''expired-token'' = Inl ExpiredSignatureError"
  "sample_decode ''garbage'' = Inl JWTError"
  by (simp_all add: sample_decode_def)

text \<open>
  Claim C4. Whatever exception of the \<^verbatim>\<open>JWTError\<close> family the decoder raises (malformed
  token or failed signature, expired token, invalid claim), and also when the decoded
  token has no subject or a subject that is not a key of the user table, the outcome is
  one and the same value: the 401 exception with the detail
  \<^verbatim>\<open>Invalid authentication credentials\<close>. The function returns a user only for a token
  that decodes and whose subject is a key of the table, and then it returns the user
  stored under that key. It has no other failure.
\<close>

theorem get_current_user_outcomes:
  "(\<forall>e. decode token = Inl e \<longrightarrow>
      get_current_user decode users token =
        Inl (HTTPException 401 ''Invalid authentication credentials'')) \<and>
   (\<forall>payload. decode token = Inr payload \<and> sub payload = None \<longrightarrow>
      get_current_user decode users token =
        Inl (HTTPException 401 ''Invalid authentication credentials'')) \<and>
   (\<forall>payload name. decode token = Inr payload \<and> sub payload = Some name \<and>
        dict_get users name = None \<longrightarrow>
      get_current_user decode users token =
        Inl (HTTPException 401 ''Invalid authentication credentials'')) \<and>
   (\<forall>payload name user. decode token = Inr payload \<and> sub payload = Some name \<and>
        dict_get users name = Some user \<longrightarrow>
      get_current_user decode users token = Inr user) \<and>
   (\<forall>user. get_current_user decode users token = Inr user \<longrightarrow>
      (\<exists>payload name. decode token = Inr payload \<and> sub payload = Some name \<and>
         dict_get users name = Some user)) \<and>
   (\<forall>err. get_current_user decode users token = Inl err \<longrightarrow>
      err = HTTPException 401 ''Invalid authentication credentials'')"
  by (auto simp: get_current_user_def dict_contains_get split: sum.splits option.splits if_splits)

theorem get_current_user_outcomes_witness:
  "sample_decode ''garbage'' = Inl JWTError \<and>
   get_current_user sample_decode sample_users ''garbage'' =
     Inl (HTTPException 401 ''Invalid authentication credentials'') \<and>
   sample_decode ''expired-token'' = Inl ExpiredSignatureError \<and>
   get_current_user sample_decode sample_users ''expired-token'' =
     Inl (HTTPException 401 ''Invalid authentication credentials'') \<and>
   get_current_user sample_decode sample_users ''anonymous-token'' =
     Inl (HTTPException 401 ''Invalid authentication credentials'') \<and>
   get_current_user sample_decode sample_users ''ghost-token'' =
     Inl (HTTPException 401 ''Invalid authentication credentials'') \<and>
   get_current_user sample_decode sample_users ''user-token'' =
     Inr \<lparr>username = ''user@example.com'', hashed_password = ''bcrypt-hash-of-user'',
          is_admin = False\<rparr>"
proof -
  have s1: "sub \<lparr>sub = None, exp = Some 1700001800\<rparr> = None" by simp
  have s2: "sub \<lparr>sub = Some ''ghost@example.com'', exp = Some 1700001800\<rparr> = Some ''ghost@example.com''"
    by simp
  have s3: "sub \<lparr>sub = Some ''user@example.com'', exp = Some 1700001800\<rparr> = Some ''user@example.com''"
    by simp
  have a: "get_current_user sample_decode sample_users ''garbage'' =
     Inl (HTTPException 401 ''Invalid authentication credentials'')"
    using get_current_user_outcomes [of sample_decode "''garbage''" sample_users]
      sample_decode_values(6) by blast
  have b: "get_current_user sample_decode sample_users ''expired-token'' =
     Inl (HTTPException 401 ''Invalid authentication credentials'')"
    using get_current_user_outcomes [of sample_decode "''expired-token''" sample_users]
      sample_decode_values(5) by blast
  have c: "get_current_user sample_decode sample_users ''anonymous-token'' =
     Inl (HTTPException 401 ''Invalid authentication credentials'')"
    using get_current_user_outcomes [of sample_decode "''anonymous-token''" sample_users]
      sample_decode_values(4) s1 by blast
  have d: "get_current_user sample_decode sample_users ''ghost-token'' =
     Inl (HTTPException 401 ''Invalid authentication credentials'')"
    using get_current_user_outcomes [of sample_decode "''ghost-token''" sample_users]
      sample_decode_values(3) s2 sample_users_get(3) by blast
  have e: "get_current_user sample_decode sample_users ''user-token'' =
     Inr \<lparr>username = ''user@example.com'', hashed_password = ''bcrypt-hash-of-user'',
          is_admin = False\<rparr>"
    using get_current_user_outcomes [of sample_decode "''user-token''" sample_users]
      sample_decode_values(2) s3 sample_users_get(2) by blast
  from a b c d e sample_decode_values(5,6) show ?thesis by blast
qed

lemma admin_only_forbidden:
  "get_current_user decode users token = Inr user \<Longrightarrow> \<not> is_admin user \<Longrightarrow>
     admin_only decode users token endpoint db =
       (Inl (HTTPException 403 (''The user doesn'' @ [CHR 0x27] @ ''t have enough privileges'')), db)"
  by (simp add: admin_only_def admin_required_dep_def admin_required_def)

lemma sample_current_user:
  "get_current_user sample_decode sample_users ''user-token'' =
     Inr \<lparr>username = ''user@example.com'', hashed_password = ''bcrypt-hash-of-user'', is_admin = False\<rparr>"
  "get_current_user sample_decode sample_users ''admin-token'' =
     Inr \<lparr>username = ''admin@example.com'', hashed_password = ''bcrypt-hash-of-admin'', is_admin = True\<rparr>"
  by (simp_all add: get_current_user_def sample_decode_values sample_users_get dict_contains_get)

text \<open>
  Claim C5. For a token that authenticates as some user, the admin dependency raises the
  403 exception exactly when the user's \<^verbatim>\<open>is_admin\<close> is false and returns that user exactly
  when it is true. For a user who is not an administrator each of the six flight routes
  answers with the 403 exception and leaves the repository as it was, so the endpoint body
  never runs; for an administrator each route is its endpoint body.
\<close>

theorem admin_gate:
  "get_current_user decode users token = Inr user \<Longrightarrow>
     (admin_required_dep decode users token =
        Inl (HTTPException 403 (''The user doesn'' @ [CHR 0x27] @ ''t have enough privileges''))
      \<longleftrightarrow> \<not> is_admin user) \<and>
     (admin_required_dep decode users token = Inr user \<longleftrightarrow> is_admin user) \<and>
     (\<not> is_admin user \<longrightarrow>
        post_flights_create decode users token request db =
          (Inl (HTTPException 403 (''The user doesn'' @ [CHR 0x27] @ ''t have enough privileges'')), db) \<and>
        get_flights_search decode users token a b c d e n t db =
          (Inl (HTTPException 403 (''The user doesn'' @ [CHR 0x27] @ ''t have enough privileges'')), db) \<and>
        put_flights_update decode users token upd db =
          (Inl (HTTPException 403 (''The user doesn'' @ [CHR 0x27] @ ''t have enough privileges'')), db) \<and>
        get_flights_get_all decode users token db =
          (Inl (HTTPException 403 (''The user doesn'' @ [CHR 0x27] @ ''t have enough privileges'')), db) \<and>
        post_flights_confirm decode users token fid db =
          (Inl (HTTPException 403 (''The user doesn'' @ [CHR 0x27] @ ''t have enough privileges'')), db) \<and>
        post_flights_cancel decode users token fid db =
          (Inl (HTTPException 403 (''The user doesn'' @ [CHR 0x27] @ ''t have enough privileges'')), db)) \<and>
     (is_admin user \<longrightarrow>
        post_flights_create decode users token request db = create_flight request db \<and>
        get_flights_search decode users token a b c d e n t db = search_flights a b c d e n t db \<and>
        put_flights_update decode users token upd db = update_flight upd db \<and>
        get_flights_get_all decode users token db = list_flights db \<and>
        post_flights_confirm decode users token fid db = confirm_flight fid db \<and>
        post_flights_cancel decode users token fid db = cancel_flight fid db)"
proof (intro conjI impI)
  assume u: "get_current_user decode users token = Inr user"
  show "(admin_required_dep decode users token =
        Inl (HTTPException 403 (''The user doesn'' @ [CHR 0x27] @ ''t have enough privileges'')))
      = (\<not> is_admin user)"
    by (simp add: admin_required_dep_def admin_required_def u)
  show "(admin_required_dep decode users token = Inr user) = is_admin user"
    by (simp add: admin_required_dep_def admin_required_def u)
next
  assume u: "get_current_user decode users token = Inr user" and n: "\<not> is_admin user"
  note f = admin_only_forbidden [OF u n]
  show "post_flights_create decode users token request db =
          (Inl (HTTPException 403 (''The user doesn'' @ [CHR 0x27] @ ''t have enough privileges'')), db)"
    unfolding post_flights_create_def by (rule f)
  show "get_flights_search decode users token a b c d e n t db =
          (Inl (HTTPException 403 (''The user doesn'' @ [CHR 0x27] @ ''t have enough privileges'')), db)"
    unfolding get_flights_search_def by (rule f)
  show "put_flights_update decode users token upd db =
          (Inl (HTTPException 403 (''The user doesn'' @ [CHR 0x27] @ ''t have enough privileges'')), db)"
    unfolding put_flights_update_def by (rule f)
  show "get_flights_get_all decode users token db =
          (Inl (HTTPException 403 (''The user doesn'' @ [CHR 0x27] @ ''t have enough privileges'')), db)"
    unfolding get_flights_get_all_def by (rule f)
  show "post_flights_confirm decode users token fid db =
          (Inl (HTTPException 403 (''The user doesn'' @ [CHR 0x27] @ ''t have enough privileges'')), db)"
    unfolding post_flights_confirm_def by (rule f)
  show "post_flights_cancel decode users token fid db =
          (Inl (HTTPException 403 (''The user doesn'' @ [CHR 0x27] @ ''t have enough privileges'')), db)"
    unfolding post_flights_cancel_def by (rule f)
next
  assume u: "get_current_user decode users token = Inr user" and a: "is_admin user"
  have g: "\<And>endpoint. admin_only decode users token endpoint db = endpoint db"
    by (simp add: admin_only_def admin_required_dep_def admin_required_def u a)
  show "post_flights_create decode users token request db = create_flight request db"
    unfolding post_flights_create_def by (rule g)
  show "get_flights_search decode users token a b c d e n t db = search_flights a b c d e n t db"
    unfolding get_flights_search_def by (rule g)
  show "put_flights_update decode users token upd db = update_flight upd db"
    unfolding put_flights_update_def by (rule g)
  show "get_flights_get_all decode users token db = list_flights db"
    unfolding get_flights_get_all_def by (rule g)
  show "post_flights_confirm decode users token fid db = confirm_flight fid db"
    unfolding post_flights_confirm_def by (rule g)
  show "post_flights_cancel decode users token fid db = cancel_flight fid db"
    unfolding post_flights_cancel_def by (rule g)
qed

theorem admin_gate_witness:
  "get_current_user sample_decode sample_users ''user-token'' =
     Inr \<lparr>username = ''user@example.com'', hashed_password = ''bcrypt-hash-of-user'', is_admin = False\<rparr> \<and>
   admin_required_dep sample_decode sample_users ''user-token'' =
     Inl (HTTPException 403 (''The user doesn'' @ [CHR 0x27] @ ''t have enough privileges'')) \<and>
   post_flights_cancel sample_decode sample_users ''user-token'' ''F1'' sample_flights =
     (Inl (HTTPException 403 (''The user doesn'' @ [CHR 0x27] @ ''t have enough privileges'')),
      sample_flights) \<and>
   get_current_user sample_decode sample_users ''admin-token'' =
     Inr \<lparr>username = ''admin@example.com'', hashed_password = ''bcrypt-hash-of-admin'', is_admin = True\<rparr> \<and>
   admin_required_dep sample_decode sample_users ''admin-token'' =
     Inr \<lparr>username = ''admin@example.com'', hashed_password = ''bcrypt-hash-of-admin'', is_admin = True\<rparr> \<and>
   post_flights_cancel sample_decode sample_users ''admin-token'' ''F1'' sample_flights =
     cancel_flight ''F1'' sample_flights"
  using admin_gate [OF sample_current_user(1), of "to_dict flight_F1" sample_flights None None None None None None None blank_destination_update "''F1''"]
    admin_gate [OF sample_current_user(2), of "to_dict flight_F1" sample_flights None None None None None None None blank_destination_update "''F1''"]
    sample_current_user
  by simp

section \<open>Reservations\<close>

subsection \<open>The statuses a repository can hold\<close>

text \<open>
  A mutating call adds at most one object to the values of the repository: the request
  object of a create or an update, or the cancelled copy of a stored one.
\<close>

lemma dict_set_values_subset: "snd ` set (dict_set k v d) \<subseteq> insert v (snd ` set d)"
  by (induction d) (auto simp: dict_set_def)

lemma add_reservation_values:
  "snd ` set (snd (ReservationRepository_add_reservation r repo)) \<subseteq> insert r (snd ` set repo)"
  using dict_set_values_subset [of "id' r" r repo]
  by (auto simp: ReservationRepository_add_reservation_def)

lemma update_reservation_values:
  "snd ` set (snd (ReservationRepository_update_reservation r repo)) \<subseteq> insert r (snd ` set repo)"
  using dict_set_values_subset [of "id' r" r repo]
  by (auto simp: ReservationRepository_update_reservation_def)

lemma cancel_reservation_values:
  "x \<in> snd ` set (snd (BookingManager_cancel_reservation rid repo)) \<Longrightarrow>
     x \<in> snd ` set repo \<or> status x = ''cancelled''"
proof (cases "dict_get repo rid")
  case None
  assume "x \<in> snd ` set (snd (BookingManager_cancel_reservation rid repo))"
  with None show ?thesis
    by (simp add: BookingManager_cancel_reservation_def ReservationRepository_get_reservation_def)
next
  case (Some r)
  let ?r = "r\<lparr>status := ''cancelled''\<rparr>"
  assume "x \<in> snd ` set (snd (BookingManager_cancel_reservation rid repo))"
  with Some have "x \<in> snd ` set (snd (ReservationRepository_update_reservation ?r (dict_set rid ?r repo)))"
    by (simp add: BookingManager_cancel_reservation_def ReservationRepository_get_reservation_def
          Let_def)
  with update_reservation_values [of ?r "dict_set rid ?r repo"]
  have "x = ?r \<or> x \<in> snd ` set (dict_set rid ?r repo)" by blast
  with dict_set_values_subset [of rid ?r repo]
  have "x = ?r \<or> x \<in> snd ` set repo" by blast
  then show ?thesis by auto
qed

lemma add_reservation_member:
  "x \<in> snd ` set (snd (BookingManager_create_reservation r repo)) \<Longrightarrow>
     x = r \<or> x \<in> snd ` set repo"
  using add_reservation_values [of r repo]
  unfolding BookingManager_create_reservation_def by (rule_tac insertE [of x r "snd ` set repo"]) auto

lemma update_reservation_member:
  "x \<in> snd ` set (snd (BookingManager_update_reservation r repo)) \<Longrightarrow>
     x = r \<or> x \<in> snd ` set repo"
  using update_reservation_values [of r repo]
  unfolding BookingManager_update_reservation_def by (rule_tac insertE [of x r "snd ` set repo"]) auto

lemma booking_step_statuses:
  assumes inv: "\<forall>x \<in> snd ` set repo. status x = ''cancelled'' \<or> status x \<in> S"
    and sup: "set (supplied_statuses [c]) \<subseteq> S"
  shows "\<forall>x \<in> snd ` set (booking_step c repo). status x = ''cancelled'' \<or> status x \<in> S"
proof
  fix x assume x: "x \<in> snd ` set (booking_step c repo)"
  show "status x = ''cancelled'' \<or> status x \<in> S"
  proof (cases c)
    case (Create r)
    with sup have r: "status r \<in> S" by simp
    from x Create have "x \<in> snd ` set (snd (BookingManager_create_reservation r repo))"
      by simp
    then have "x = r \<or> x \<in> snd ` set repo" by (rule add_reservation_member)
    then show ?thesis
    proof
      assume "x = r" with r show ?thesis by simp
    next
      assume "x \<in> snd ` set repo" with inv show ?thesis by (rule bspec)
    qed
  next
    case (Update r)
    with sup have r: "status r \<in> S" by simp
    from x Update have "x \<in> snd ` set (snd (BookingManager_update_reservation r repo))"
      by simp
    then have "x = r \<or> x \<in> snd ` set repo" by (rule update_reservation_member)
    then show ?thesis
    proof
      assume "x = r" with r show ?thesis by simp
    next
      assume "x \<in> snd ` set repo" with inv show ?thesis by (rule bspec)
    qed
  next
    case (Cancel rid)
    with x have "x \<in> snd ` set (snd (BookingManager_cancel_reservation rid repo))"
      by simp
    then have "x \<in> snd ` set repo \<or> status x = ''cancelled''"
      by (rule cancel_reservation_values)
    then show ?thesis
    proof
      assume "x \<in> snd ` set repo" with inv show ?thesis by (rule bspec)
    next
      assume "status x = ''cancelled''" then show ?thesis by simp
    qed
  qed
qed

lemma supplied_statuses_Cons:
  "set (supplied_statuses (c # cs)) = set (supplied_statuses [c]) \<union> set (supplied_statuses cs)"
  by (cases c) auto

lemma booking_run_statuses:
  "\<forall>x \<in> snd ` set repo. status x = ''cancelled'' \<or> status x \<in> S \<Longrightarrow>
   set (supplied_statuses calls) \<subseteq> S \<Longrightarrow>
   \<forall>x \<in> snd ` set (booking_run calls repo). status x = ''cancelled'' \<or> status x \<in> S"
proof (induction calls arbitrary: repo)
  case Nil
  then show ?case by simp
next
  case (Cons c cs)
  from Cons.prems(2) have a: "set (supplied_statuses [c]) \<subseteq> S"
    and b: "set (supplied_statuses cs) \<subseteq> S"
    by (simp_all add: supplied_statuses_Cons [of c cs])
  from booking_step_statuses [OF Cons.prems(1) a]
  have "\<forall>x \<in> snd ` set (booking_step c repo). status x = ''cancelled'' \<or> status x \<in> S" .
  from Cons.IH [OF this b] show ?case by simp
qed

lemma create_reservation_new:
  assumes "dict_get repo (id' r) = None"
  shows "BookingManager_create_reservation r repo = (Inr (), repo @ [(id' r, r)])"
  using assms dict_set_absent [OF assms]
  by (simp add: BookingManager_create_reservation_def ReservationRepository_add_reservation_def
        dict_contains_get)

text \<open>
  Claim C8, as the specification states it, fails: \<^verbatim>\<open>status\<close> is a plain string in the
  model class, so a request body with \<^verbatim>\<open>"status": "pending"\<close> is accepted by create and
  the stored reservation has that status in a reachable repository.
\<close>

theorem create_reservation_pending_counterexample:
  "create_reservation reservation_7 ReservationRepository_init =
     (Inr reservation_7, [(7, reservation_7)]) \<and>
   map status (BookingManager_list_all_reservations
     (booking_run [Create reservation_7] ReservationRepository_init)) = [''pending'']"
  by (simp add: create_reservation_def BookingManager_create_reservation_def
        ReservationRepository_add_reservation_def ReservationRepository_init_def
        dict_contains_def dict_set_def reservation_7_def Reservation_init_def
        BookingManager_list_all_reservations_def ReservationRepository_list_all_def
        dict_values_def)

text \<open>
  Claim C8, amended. A reservation built from a request that leaves \<^verbatim>\<open>status\<close> out has
  status \<^verbatim>\<open>reserved\<close>, and create stores an accepted reservation as it was given. In every
  repository reached from the empty one by create, update and cancel calls, each stored
  status is \<^verbatim>\<open>cancelled\<close> or one that a create or update request supplied; so when every
  such request carried \<^verbatim>\<open>reserved\<close> or \<^verbatim>\<open>cancelled\<close>, every stored status is one of the two.
\<close>

theorem reservation_status_invariant:
  "status (Reservation_init rid email fid seat None) = ''reserved'' \<and>
   (dict_get repo (id' r) = None \<longrightarrow>
      BookingManager_create_reservation r repo = (Inr (), repo @ [(id' r, r)])) \<and>
   (\<forall>x \<in> set (BookingManager_list_all_reservations
                  (booking_run calls ReservationRepository_init)).
      status x = ''cancelled'' \<or> status x \<in> set (supplied_statuses calls)) \<and>
   (set (supplied_statuses calls) \<subseteq> {''reserved'', ''cancelled''} \<longrightarrow>
      (\<forall>x \<in> set (BookingManager_list_all_reservations
                     (booking_run calls ReservationRepository_init)).
         status x = ''reserved'' \<or> status x = ''cancelled''))"
proof -
  have a: "status (Reservation_init rid email fid seat None) = ''reserved''"
    by (simp add: Reservation_init_def)
  have b: "dict_get repo (id' r) = None \<longrightarrow>
      BookingManager_create_reservation r repo = (Inr (), repo @ [(id' r, r)])"
    using create_reservation_new by blast
  have c: "\<forall>x \<in> snd ` set (booking_run calls []).
      status x = ''cancelled'' \<or> status x \<in> set (supplied_statuses calls)"
    by (rule booking_run_statuses) simp_all
  have d: "set (supplied_statuses calls) \<subseteq> {''reserved'', ''cancelled''} \<longrightarrow>
      (\<forall>x \<in> snd ` set (booking_run calls []). status x = ''reserved'' \<or> status x = ''cancelled'')"
    using c by blast
  from a b c d show ?thesis
    by (simp add: BookingManager_list_all_reservations_def ReservationRepository_list_all_def
          dict_values_def ReservationRepository_init_def)
qed

theorem reservation_status_invariant_witness:
  "status (Reservation_init 42 ''a@b.com'' ''F1'' None None) = ''reserved'' \<and>
   dict_get ReservationRepository_init (id' reservation_42) = None \<and>
   BookingManager_create_reservation reservation_42 ReservationRepository_init =
     (Inr (), [(42, reservation_42)]) \<and>
   supplied_statuses [Create reservation_42, Cancel 42, Create reservation_42] =
     [''reserved'', ''reserved''] \<and>
   map status (BookingManager_list_all_reservations
     (booking_run [Create reservation_42, Cancel 42, Create reservation_42]
        ReservationRepository_init)) = [''cancelled'']"
proof -
  have g: "dict_get ReservationRepository_init (id' reservation_42) = None"
    by (simp add: ReservationRepository_init_def dict_get_def)
  have i: "id' reservation_42 = 42"
    by (simp add: reservation_42_def Reservation_init_def)
  have s: "supplied_statuses [Create reservation_42, Cancel 42, Create reservation_42] =
     [''reserved'', ''reserved'']"
    by (simp add: reservation_42_def Reservation_init_def)
  have r: "booking_run [Create reservation_42, Cancel 42, Create reservation_42]
        ReservationRepository_init = [(42, reservation_42\<lparr>status := ''cancelled''\<rparr>)]"
    by (simp add: BookingManager_create_reservation_def BookingManager_cancel_reservation_def
        ReservationRepository_add_reservation_def ReservationRepository_update_reservation_def
        ReservationRepository_get_reservation_def ReservationRepository_init_def
        dict_contains_def dict_set_def dict_get_def i)
  have m: "BookingManager_list_all_reservations [(42, reservation_42\<lparr>status := ''cancelled''\<rparr>)] =
     [reservation_42\<lparr>status := ''cancelled''\<rparr>]"
    by (simp add: BookingManager_list_all_reservations_def ReservationRepository_list_all_def
        dict_values_def)
  show ?thesis
    using reservation_status_invariant
      [of 42 "''a@b.com''" "''F1''" None ReservationRepository_init reservation_42
          "[Create reservation_42, Cancel 42, Create reservation_42]"]
      g s
    unfolding r m
    by (simp add: i ReservationRepository_init_def)
qed

subsection \<open>Cancelling a reservation\<close>

text \<open>
  Every call of the facade keeps the repository keyed by \<^verbatim>\<open>id\<close>, so in a reachable
  repository the object found under \<^verbatim>\<open>reservation_id\<close> has that id, the write-back of
  \<^verbatim>\<open>cancel_reservation\<close> goes to the same key, and \<^verbatim>\<open>update_reservation\<close> cannot raise.
\<close>

lemma keyed_by_id_Cons:
  "keyed_by_id ((k, r) # repo) \<longleftrightarrow> k \<notin> fst ` set repo \<and> id' r = k \<and> keyed_by_id repo"
  by (auto simp: keyed_by_id_def)

lemma keyed_by_id_lookup: "keyed_by_id repo \<Longrightarrow> dict_get repo k = Some r \<Longrightarrow> id' r = k"
proof (induction repo)
  case Nil
  then show ?case by (simp add: dict_get_def)
next
  case (Cons p repo)
  obtain j x where p: "p = (j, x)" by (cases p)
  show ?case
  proof (cases "j = k")
    case True
    with Cons.prems p show ?thesis by (simp add: keyed_by_id_Cons dict_get_def)
  next
    case False
    with Cons.prems p have "keyed_by_id repo" and "dict_get repo k = Some r"
      by (simp_all add: keyed_by_id_Cons dict_get_def)
    then show ?thesis by (rule Cons.IH)
  qed
qed

lemma dict_get_None_iff: "dict_get d k = None \<longleftrightarrow> k \<notin> fst ` set d"
  by (simp add: dict_get_def map_of_eq_None_iff)

lemma keyed_values_untouched:
  "keyed_by_id repo \<Longrightarrow> k \<notin> fst ` set repo \<Longrightarrow>
     map (\<lambda>x. if id' x = k then g x else x) (map snd repo) = map snd repo"
proof (induction repo)
  case Nil
  show ?case by simp
next
  case (Cons p repo)
  obtain j x where p: "p = (j, x)" by (cases p)
  from Cons.prems p have "keyed_by_id repo" "k \<notin> fst ` set repo" "id' x = j" "j \<noteq> k"
    by (auto simp: keyed_by_id_Cons)
  with Cons.IH p show ?case by simp
qed

lemma keyed_dict_set_values:
  "keyed_by_id repo \<Longrightarrow> dict_get repo k = Some r \<Longrightarrow>
     map snd (dict_set k (g r) repo) = map (\<lambda>x. if id' x = k then g x else x) (map snd repo)"
proof (induction repo)
  case Nil
  then show ?case by (simp add: dict_get_def)
next
  case (Cons p repo)
  obtain j x where p: "p = (j, x)" by (cases p)
  from Cons.prems(1) p have kr: "keyed_by_id repo" and jn: "j \<notin> fst ` set repo" and ix: "id' x = j"
    by (simp_all add: keyed_by_id_Cons)
  show ?case
  proof (cases "j = k")
    case True
    with Cons.prems(2) p have xr: "x = r" by (simp add: dict_get_def)
    from True jn have "k \<notin> fst ` set repo" by simp
    from keyed_values_untouched [OF kr this, of g]
    show ?thesis using True p xr ix by (simp add: dict_set_def)
  next
    case False
    with Cons.prems(2) p have "dict_get repo k = Some r" by (simp add: dict_get_def)
    from Cons.IH [OF kr this] False p ix show ?thesis by (simp add: dict_set_def)
  qed
qed

lemma keyed_dict_set_present:
  "keyed_by_id repo \<Longrightarrow> dict_get repo k = Some r \<Longrightarrow> id' v = k \<Longrightarrow>
     keyed_by_id (dict_set k v repo)"
proof (induction repo)
  case Nil
  then show ?case by (simp add: dict_get_def)
next
  case (Cons p repo)
  obtain j x where p: "p = (j, x)" by (cases p)
  from Cons.prems(1) p have kr: "keyed_by_id repo" and jn: "j \<notin> fst ` set repo" and ix: "id' x = j"
    by (simp_all add: keyed_by_id_Cons)
  show ?case
  proof (cases "j = k")
    case True
    with p kr jn Cons.prems(3) show ?thesis by (simp add: dict_set_def keyed_by_id_Cons)
  next
    case False
    with Cons.prems(2) p have g: "dict_get repo k = Some r" by (simp add: dict_get_def)
    have "fst ` set (dict_set k v repo) = fst ` set repo"
      using dict_set_keys_present [OF g, of v] by (metis list.set_map)
    with Cons.IH [OF kr g Cons.prems(3)] False p jn ix show ?thesis
      by (simp add: dict_set_def keyed_by_id_Cons)
  qed
qed

lemma keyed_dict_set_absent:
  "keyed_by_id repo \<Longrightarrow> dict_get repo k = None \<Longrightarrow> id' v = k \<Longrightarrow>
     keyed_by_id (dict_set k v repo)"
  by (simp add: dict_set_absent keyed_by_id_def dict_get_None_iff)

lemma cancel_reservation_absent:
  "ReservationRepository_get_reservation rid repo = None \<Longrightarrow>
     BookingManager_cancel_reservation rid repo =
       (Inl (HTTPException 404 (''Reservaci'' @ [CHR 0xF3] @ ''n no encontrada.'')), repo)"
  by (simp add: BookingManager_cancel_reservation_def)

lemma cancel_reservation_keyed:
  assumes k: "keyed_by_id repo"
    and g: "ReservationRepository_get_reservation rid repo = Some r"
  shows "BookingManager_cancel_reservation rid repo =
           (Inr (), dict_set rid (r\<lparr>status := ''cancelled''\<rparr>) repo)"
proof -
  from g have g': "dict_get repo rid = Some r"
    by (simp add: ReservationRepository_get_reservation_def)
  from keyed_by_id_lookup [OF k g'] have i: "id' (r\<lparr>status := ''cancelled''\<rparr>) = rid"
    by simp
  have c: "dict_contains rid (dict_set rid (r\<lparr>status := ''cancelled''\<rparr>) repo)"
    by (simp add: dict_contains_get dict_set_get_same)
  show ?thesis
    using g c
    by (simp add: BookingManager_cancel_reservation_def Let_def
          ReservationRepository_update_reservation_def i dict_set_twice)
qed

lemma booking_step_keyed: "keyed_by_id repo \<Longrightarrow> keyed_by_id (booking_step c repo)"
proof (cases c)
  case (Create r)
  assume k: "keyed_by_id repo"
  show ?thesis
  proof (cases "dict_get repo (id' r)")
    case None
    with keyed_dict_set_absent [OF k None, of r] Create show ?thesis
      by (simp add: BookingManager_create_reservation_def
            ReservationRepository_add_reservation_def dict_contains_get)
  next
    case (Some x)
    with k Create show ?thesis
      by (simp add: BookingManager_create_reservation_def
            ReservationRepository_add_reservation_def dict_contains_get)
  qed
next
  case (Update r)
  assume k: "keyed_by_id repo"
  show ?thesis
  proof (cases "dict_get repo (id' r)")
    case None
    with k Update show ?thesis
      by (simp add: BookingManager_update_reservation_def
            ReservationRepository_update_reservation_def dict_contains_get)
  next
    case (Some x)
    with keyed_dict_set_present [OF k Some, of r] Update show ?thesis
      by (simp add: BookingManager_update_reservation_def
            ReservationRepository_update_reservation_def dict_contains_get)
  qed
next
  case (Cancel rid)
  assume k: "keyed_by_id repo"
  show ?thesis
  proof (cases "ReservationRepository_get_reservation rid repo")
    case None
    with k Cancel show ?thesis by (simp add: cancel_reservation_absent)
  next
    case (Some r)
    then have g: "dict_get repo rid = Some r"
      by (simp add: ReservationRepository_get_reservation_def)
    from keyed_by_id_lookup [OF k g] have "id' (r\<lparr>status := ''cancelled''\<rparr>) = rid" by simp
    from keyed_dict_set_present [OF k g this] Cancel show ?thesis
      by (simp add: cancel_reservation_keyed [OF k Some])
  qed
qed

lemma booking_run_keyed: "keyed_by_id repo \<Longrightarrow> keyed_by_id (booking_run calls repo)"
  by (induction calls arbitrary: repo) (simp_all add: booking_step_keyed)

lemma reachable_keyed: "keyed_by_id (booking_run calls ReservationRepository_init)"
  by (rule booking_run_keyed) (simp add: keyed_by_id_def ReservationRepository_init_def)

lemma cancel_reservation_listing:
  assumes k: "keyed_by_id repo"
    and g: "ReservationRepository_get_reservation rid repo = Some r"
  shows "BookingManager_list_all_reservations (snd (BookingManager_cancel_reservation rid repo)) =
           map (\<lambda>x. if id' x = rid then x\<lparr>status := ''cancelled''\<rparr> else x)
             (BookingManager_list_all_reservations repo)"
proof -
  from g have g': "dict_get repo rid = Some r"
    by (simp add: ReservationRepository_get_reservation_def)
  from keyed_dict_set_values [OF k g', of "\<lambda>x. x\<lparr>status := ''cancelled''\<rparr>"]
  show ?thesis
    by (simp add: cancel_reservation_keyed [OF k g] BookingManager_list_all_reservations_def
          ReservationRepository_list_all_def dict_values_def)
qed

lemma sample_reservation_ids: "id' reservation_42 = 42" "id' reservation_7 = 7"
  by (simp_all add: reservation_42_def reservation_7_def Reservation_init_def)

lemma sample_booking_run:
  "booking_run [Create reservation_42, Create reservation_7] ReservationRepository_init =
     [(42, reservation_42), (7, reservation_7)]"
  by (simp add: BookingManager_create_reservation_def ReservationRepository_add_reservation_def
        ReservationRepository_init_def dict_contains_def dict_set_def sample_reservation_ids)

text \<open>
  Claim C9. In every repository reached from the empty one by create, update and cancel
  calls: cancelling an id that is not stored raises the 404 exception and leaves the
  repository as it was; cancelling a stored id succeeds, the repository afterwards is the
  old one with the cancelled copy of the reservation written under the same key, and the
  listing afterwards is the old listing with \<^verbatim>\<open>status\<close> set to \<^verbatim>\<open>cancelled\<close> in the
  reservation with that id and every other field and every other reservation as before.
\<close>

theorem cancel_reservation_cases:
  "(ReservationRepository_get_reservation rid (booking_run calls ReservationRepository_init) = None \<longrightarrow>
      BookingManager_cancel_reservation rid (booking_run calls ReservationRepository_init) =
        (Inl (HTTPException 404 (''Reservaci'' @ [CHR 0xF3] @ ''n no encontrada.'')),
         booking_run calls ReservationRepository_init)) \<and>
   (\<forall>r. ReservationRepository_get_reservation rid (booking_run calls ReservationRepository_init) = Some r \<longrightarrow>
      fst (BookingManager_cancel_reservation rid (booking_run calls ReservationRepository_init)) = Inr () \<and>
      snd (BookingManager_cancel_reservation rid (booking_run calls ReservationRepository_init)) =
        dict_set rid (r\<lparr>status := ''cancelled''\<rparr>) (booking_run calls ReservationRepository_init) \<and>
      ReservationRepository_get_reservation rid
          (snd (BookingManager_cancel_reservation rid (booking_run calls ReservationRepository_init))) =
        Some (r\<lparr>status := ''cancelled''\<rparr>) \<and>
      BookingManager_list_all_reservations
          (snd (BookingManager_cancel_reservation rid (booking_run calls ReservationRepository_init))) =
        map (\<lambda>x. if id' x = rid then x\<lparr>status := ''cancelled''\<rparr> else x)
          (BookingManager_list_all_reservations (booking_run calls ReservationRepository_init)) \<and>
      r\<lparr>status := ''cancelled''\<rparr> \<in> set (BookingManager_list_all_reservations
          (snd (BookingManager_cancel_reservation rid (booking_run calls ReservationRepository_init)))))"
proof (intro conjI impI allI)
  assume "ReservationRepository_get_reservation rid (booking_run calls ReservationRepository_init) = None"
  then show "BookingManager_cancel_reservation rid (booking_run calls ReservationRepository_init) =
        (Inl (HTTPException 404 (''Reservaci'' @ [CHR 0xF3] @ ''n no encontrada.'')),
         booking_run calls ReservationRepository_init)"
    by (rule cancel_reservation_absent)
next
  fix r
  let ?repo = "booking_run calls ReservationRepository_init"
  assume g: "ReservationRepository_get_reservation rid ?repo = Some r"
  note k = reachable_keyed [of calls]
  note c = cancel_reservation_keyed [OF k g]
  show "fst (BookingManager_cancel_reservation rid ?repo) = Inr ()"
    by (simp add: c)
  show "snd (BookingManager_cancel_reservation rid ?repo) =
          dict_set rid (r\<lparr>status := ''cancelled''\<rparr>) ?repo"
    by (simp add: c)
  show "ReservationRepository_get_reservation rid (snd (BookingManager_cancel_reservation rid ?repo)) =
          Some (r\<lparr>status := ''cancelled''\<rparr>)"
    by (simp add: c ReservationRepository_get_reservation_def dict_set_get_same)
  show "BookingManager_list_all_reservations (snd (BookingManager_cancel_reservation rid ?repo)) =
        map (\<lambda>x. if id' x = rid then x\<lparr>status := ''cancelled''\<rparr> else x)
          (BookingManager_list_all_reservations ?repo)"
    by (rule cancel_reservation_listing [OF k g])
  have "(rid, r\<lparr>status := ''cancelled''\<rparr>) \<in> set (dict_set rid (r\<lparr>status := ''cancelled''\<rparr>) ?repo)"
    using dict_set_get_same [of rid "r\<lparr>status := ''cancelled''\<rparr>" ?repo]
    by (simp add: dict_get_def map_of_SomeD)
  then have "snd (rid, r\<lparr>status := ''cancelled''\<rparr>) \<in> snd ` set (dict_set rid (r\<lparr>status := ''cancelled''\<rparr>) ?repo)"
    by (rule imageI)
  then show "r\<lparr>status := ''cancelled''\<rparr> \<in> set (BookingManager_list_all_reservations
          (snd (BookingManager_cancel_reservation rid ?repo)))"
    by (simp add: c BookingManager_list_all_reservations_def ReservationRepository_list_all_def
          dict_values_def)
qed

theorem cancel_reservation_cases_witness:
  "ReservationRepository_get_reservation 99
     (booking_run [Create reservation_42, Create reservation_7] ReservationRepository_init) = None \<and>
   BookingManager_cancel_reservation 99
     (booking_run [Create reservation_42, Create reservation_7] ReservationRepository_init) =
     (Inl (HTTPException 404 (''Reservaci'' @ [CHR 0xF3] @ ''n no encontrada.'')),
      [(42, reservation_42), (7, reservation_7)]) \<and>
   ReservationRepository_get_reservation 7
     (booking_run [Create reservation_42, Create reservation_7] ReservationRepository_init) =
     Some reservation_7 \<and>
   fst (BookingManager_cancel_reservation 7
     (booking_run [Create reservation_42, Create reservation_7] ReservationRepository_init)) = Inr () \<and>
   BookingManager_list_all_reservations (snd (BookingManager_cancel_reservation 7
     (booking_run [Create reservation_42, Create reservation_7] ReservationRepository_init))) =
     [reservation_42, reservation_7\<lparr>status := ''cancelled''\<rparr>]"
proof -
  have a: "ReservationRepository_get_reservation 99 [(42, reservation_42), (7, reservation_7)] = None"
    by (simp add: ReservationRepository_get_reservation_def dict_get_def)
  have b: "ReservationRepository_get_reservation 7 [(42, reservation_42), (7, reservation_7)] =
     Some reservation_7"
    by (simp add: ReservationRepository_get_reservation_def dict_get_def)
  have l: "BookingManager_list_all_reservations [(42, reservation_42), (7, reservation_7)] =
     [reservation_42, reservation_7]"
    by (simp add: BookingManager_list_all_reservations_def ReservationRepository_list_all_def
          dict_values_def)
  show ?thesis
    using cancel_reservation_cases [of 99 "[Create reservation_42, Create reservation_7]"]
      cancel_reservation_cases [of 7 "[Create reservation_42, Create reservation_7]"]
    unfolding sample_booking_run
    by (simp add: a b l sample_reservation_ids dict_set_def)
       (simp add: BookingManager_list_all_reservations_def ReservationRepository_list_all_def
          dict_values_def)
qed

end
